theory Spec2Isabelle
  imports Complex_Main "HOL-Library.Sublist"
begin

section \<open>Errors\<close>

text \<open>
  The exceptions the modelled code raises, or lets escape from the libraries it calls.
  \<open>ValueError\<close> carries the option name that \<open>check_range\<close> puts in its message.
\<close>

datatype error =
    ValueError string
  | RuntimeError string
  | AttributeError
  | FileNotFoundError
  | ColumnNotFoundError string
  | NoDataError
  | ComputeError

section \<open>The similarity table\<close>

text \<open>
  One row of the table that the similarity tool writes, restricted to the columns the
  code names. The columns \<open>ANI\<close>, \<open>Align_fraction_ref\<close> and \<open>Align_fraction_query\<close> are
  floating-point columns of the data frame; they are modelled by real numbers, so
  comparison and arithmetic are exact.
\<close>

record ani_row =
  Ref_name :: string
  Query_name :: string
  ANI :: real

record skani_row = ani_row +
  Align_fraction_ref :: real
  Align_fraction_query :: real

text \<open>The rows after \<open>_create_edge_weights\<close>: two more columns, \<open>AF\<close> and \<open>weight\<close>.\<close>

record edge_row = skani_row +
  AF :: real
  weight :: real

section \<open>\<open>vskani/skani/preprocess.py\<close>: class \<open>SkaniPreprocessor\<close>\<close>

text \<open>
  The object's only mutable attribute is \<open>self.data\<close>; each method is a function from
  the data before the call to the data after it.
\<close>

definition filter_self_comparisons :: "skani_row \<Rightarrow> bool" where
  "filter_self_comparisons r \<longleftrightarrow> Ref_name r \<noteq> Query_name r"

definition filter_min_ani :: "real \<Rightarrow> skani_row \<Rightarrow> bool" where
  "filter_min_ani t_ani r \<longleftrightarrow> ANI r \<ge> t_ani"

definition filter_min_af :: "real \<Rightarrow> skani_row \<Rightarrow> bool" where
  "filter_min_af t_af r \<longleftrightarrow> Align_fraction_ref r \<ge> t_af \<or> Align_fraction_query r \<ge> t_af"

definition SkaniPreprocessor_preprocess :: "real \<Rightarrow> real \<Rightarrow> skani_row list \<Rightarrow> skani_row list" where
  "SkaniPreprocessor_preprocess t_ani t_af data =
     filter (\<lambda>r. filter_self_comparisons r \<and> filter_min_ani t_ani r \<and> filter_min_af t_af r) data"

definition scale :: real where
  "scale = 100\<^sup>2"

definition directional_min_af :: "skani_row \<Rightarrow> real" where
  "directional_min_af r = min (Align_fraction_query r) (Align_fraction_ref r)"

definition edge_weights :: "skani_row \<Rightarrow> real" where
  "edge_weights r = directional_min_af r * ANI r / scale"

definition with_edge_weights :: "skani_row \<Rightarrow> edge_row" where
  "with_edge_weights r =
     \<lparr>Ref_name = Ref_name r, Query_name = Query_name r, ANI = ANI r,
      Align_fraction_ref = Align_fraction_ref r, Align_fraction_query = Align_fraction_query r,
      AF = directional_min_af r, weight = edge_weights r\<rparr>"

definition SkaniPreprocessor_create_edge_weights :: "skani_row list \<Rightarrow> edge_row list" where
  "SkaniPreprocessor_create_edge_weights data = map with_edge_weights data"

definition SkaniPreprocessor_process :: "real \<Rightarrow> real \<Rightarrow> skani_row list \<Rightarrow> edge_row list" where
  "SkaniPreprocessor_process t_ani t_af data =
     SkaniPreprocessor_create_edge_weights (SkaniPreprocessor_preprocess t_ani t_af data)"

text \<open>\<open>save\<close> selects the three columns of the edge list, in this order.\<close>

definition select_cols :: "edge_row \<Rightarrow> string \<times> string \<times> real" where
  "select_cols e = (Ref_name e, Query_name e, weight e)"

section \<open>\<open>python/preprocess.py\<close>: the filter of \<open>main\<close>\<close>

definition preprocess_py_filter :: "real \<Rightarrow> real \<Rightarrow> skani_row list \<Rightarrow> skani_row list" where
  "preprocess_py_filter t_ani t_cov data =
     filter (\<lambda>r. Ref_name r \<noteq> Query_name r \<and> ANI r \<ge> t_ani \<and>
                 (Align_fraction_ref r \<ge> t_cov \<or> Align_fraction_query r \<ge> t_cov)) data"

section \<open>Double-precision numbers\<close>

text \<open>
  The thresholds are Python floats, IEEE double-precision numbers. A double is modelled
  by the real number it denotes, and a product of two doubles is the real product
  rounded to the nearest double, a tie going to the even significand. \<open>exponent\<close> is the
  binary exponent of a positive number, from \<open>-1022\<close>, the exponent of the subnormal
  numbers, to \<open>1023\<close>; \<open>ulp\<close> is the distance between neighbouring doubles of that
  exponent. Products of magnitude \<open>2 ^ 1024\<close> or more, which round to an infinity, do not
  arise here: the only products formed are those of a validated threshold, in \<open>[0, 1]\<close>,
  and \<open>100.0\<close>.
\<close>

fun exp_above :: "nat \<Rightarrow> int \<Rightarrow> real \<Rightarrow> int" where
  "exp_above 0 e x = e"
| "exp_above (Suc n) e x = (if 2 powi (e + 1) \<le> x then exp_above n (e + 1) x else e)"

fun exp_below :: "nat \<Rightarrow> int \<Rightarrow> real \<Rightarrow> int" where
  "exp_below 0 e x = e"
| "exp_below (Suc n) e x = (if x < 2 powi e then exp_below n (e - 1) x else e)"

definition exponent :: "real \<Rightarrow> int" where
  "exponent x = (if 1 \<le> x then exp_above 1023 0 x else exp_below 1022 0 x)"

definition ulp :: "real \<Rightarrow> real" where
  "ulp x = 2 powi (exponent x - 52)"

definition round_half_even :: "real \<Rightarrow> int" where
  "round_half_even m =
     (let f = \<lfloor>m\<rfloor>
      in if m - of_int f < 1 / 2 then f
         else if 1 / 2 < m - of_int f then f + 1
         else if even f then f else f + 1)"

definition double_round :: "real \<Rightarrow> real" where
  "double_round x =
     (if x = 0 then 0
      else sgn x * (of_int (round_half_even (\<bar>x\<bar> / ulp \<bar>x\<bar>)) * ulp \<bar>x\<bar>))"

definition double_mul :: "real \<Rightarrow> real \<Rightarrow> real" where
  "double_mul a b = double_round (a * b)"

section \<open>\<open>vskani/skani/_cli.py\<close>: threshold validation\<close>

definition check_range :: "real \<Rightarrow> real \<times> real \<Rightarrow> string \<Rightarrow> error + unit" where
  "check_range val bounds name =
     (case bounds of (minval, maxval) \<Rightarrow>
        if \<not> (minval \<le> val \<and> val \<le> maxval) then Inl (ValueError name) else Inr ())"

record PreprocessingArgs =
  min_ani :: real
  min_cov :: real

text \<open>
  The dataclass constructor: the fields are stored, then \<open>__post_init__\<close> validates the
  two values in turn and multiplies both by the double \<open>100.0\<close>.
\<close>

definition valrange :: "real \<times> real" where
  "valrange = (0, 1)"

definition PreprocessingArgs_init :: "real \<Rightarrow> real \<Rightarrow> error + PreprocessingArgs" where
  "PreprocessingArgs_init a c =
     (case check_range a valrange ''--min-ani'' of
        Inl e \<Rightarrow> Inl e
      | Inr _ \<Rightarrow>
        (case check_range c valrange ''--min-cov'' of
           Inl e \<Rightarrow> Inl e
         | Inr _ \<Rightarrow> Inr \<lparr>min_ani = double_mul a 100, min_cov = double_mul c 100\<rparr>))"

section \<open>Text files\<close>

text \<open>
  A file's content is the list of its characters. \<open>readline\<close> returns the first line of
  the content, with its newline when there is one, and what follows it; on empty content
  it returns the empty line. \<open>file_lines\<close> is what iterating an open text file yields: the
  lines in order, each with its newline, the last one possibly without. For a file opened
  as text the content is the one after the translation of line ends to the newline
  character.
\<close>

definition newline :: char where
  "newline = CHR 0x0A"

definition tab :: char where
  "tab = CHR 0x09"

fun readline :: "string \<Rightarrow> string \<times> string" where
  "readline [] = ([], [])"
| "readline (c # cs) =
     (if c = newline then ([c], cs)
      else (case readline cs of (l, rest) \<Rightarrow> (c # l, rest)))"

fun file_lines :: "string \<Rightarrow> string list" where
  "file_lines [] = []"
| "file_lines (c # cs) =
     (if c = newline then [c] # file_lines cs
      else (case file_lines cs of [] \<Rightarrow> [[c]] | l # ls \<Rightarrow> (c # l) # ls))"

text \<open>
  \<open>str.rstrip()\<close> without argument removes trailing whitespace; the whitespace characters
  below are the ASCII ones of Python's \<open>str.isspace\<close>. \<open>str.split(sep)\<close> with a
  one-character separator returns the pieces between the separators, at least one piece.
\<close>

definition isspace :: "char \<Rightarrow> bool" where
  "isspace c \<longleftrightarrow>
     c \<in> {CHR 0x09, CHR 0x0A, CHR 0x0B, CHR 0x0C, CHR 0x0D,
          CHR 0x1C, CHR 0x1D, CHR 0x1E, CHR 0x1F, CHR 0x20}"

definition rstrip :: "string \<Rightarrow> string" where
  "rstrip s = rev (dropWhile isspace (rev s))"

fun str_split :: "char \<Rightarrow> string \<Rightarrow> string list" where
  "str_split sep [] = [[]]"
| "str_split sep (c # cs) =
     (if c = sep then [] # str_split sep cs
      else (case str_split sep cs of [] \<Rightarrow> [[c]] | w # ws \<Rightarrow> (c # w) # ws))"

section \<open>\<open>vskani/mcl/utils.py\<close>: loading clusters\<close>

definition parse_cluster :: "string \<Rightarrow> string list" where
  "parse_cluster line = str_split tab (rstrip line)"

definition iload :: "string \<Rightarrow> nat \<Rightarrow> string list list" where
  "iload file min_cluster_size =
     filter (\<lambda>cluster. length cluster \<ge> min_cluster_size) (map parse_cluster (file_lines file))"

section \<open>\<open>vskani/mcl/utils.py\<close>: class \<open>ClusterSummarizer\<close>\<close>

text \<open>
  The dictionary comprehension of \<open>_map_members_to_cluster_ids\<close> stores, for every
  enumerated cluster in turn and every member of it in turn, the cluster's number under
  the member's name; a later store under the same name replaces the earlier one.
\<close>

definition store_members :: "nat \<Rightarrow> string list \<Rightarrow> (string \<rightharpoonup> nat) \<Rightarrow> (string \<rightharpoonup> nat)" where
  "store_members cluster_id cluster m = fold (\<lambda>member d. d(member \<mapsto> cluster_id)) cluster m"

fun store_clusters :: "nat \<Rightarrow> string list list \<Rightarrow> (string \<rightharpoonup> nat) \<Rightarrow> (string \<rightharpoonup> nat)" where
  "store_clusters cluster_id [] d = d"
| "store_clusters cluster_id (cluster # rest) d =
     store_clusters (Suc cluster_id) rest (store_members cluster_id cluster d)"

definition member2cluster :: "string list list \<Rightarrow> (string \<rightharpoonup> nat)" where
  "member2cluster clusters = store_clusters 0 clusters Map.empty"

definition map_members_to_cluster_ids :: "string \<Rightarrow> nat \<Rightarrow> (string \<rightharpoonup> nat)" where
  "map_members_to_cluster_ids clusters_file min_cluster_size =
     member2cluster (iload clusters_file min_cluster_size)"

text \<open>
  The two inner joins of \<open>_merge_cluster_ids\<close>. The right-hand frame has one record per key
  of the dictionary, so a row of the left-hand frame is kept, once, exactly when its name
  is a key, and receives the cluster number stored under it.
\<close>

record ref_joined_row = ani_row +
  Ref_cluster :: nat

record joined_row = ref_joined_row +
  Query_cluster :: nat

definition join_Ref_name :: "(string \<rightharpoonup> nat) \<Rightarrow> ani_row list \<Rightarrow> ref_joined_row list" where
  "join_Ref_name clusters data =
     List.map_filter (\<lambda>r. map_option (\<lambda>c.
        \<lparr>Ref_name = Ref_name r, Query_name = Query_name r, ANI = ANI r, Ref_cluster = c\<rparr>)
        (clusters (Ref_name r))) data"

definition join_Query_name :: "(string \<rightharpoonup> nat) \<Rightarrow> ref_joined_row list \<Rightarrow> joined_row list" where
  "join_Query_name clusters data =
     List.map_filter (\<lambda>r. map_option (\<lambda>c.
        \<lparr>Ref_name = Ref_name r, Query_name = Query_name r, ANI = ANI r,
         Ref_cluster = Ref_cluster r, Query_cluster = c\<rparr>)
        (clusters (Query_name r))) data"

definition merge_cluster_ids :: "(string \<rightharpoonup> nat) \<Rightarrow> ani_row list \<Rightarrow> joined_row list" where
  "merge_cluster_ids clusters ani_data =
     filter (\<lambda>r. Ref_cluster r = Query_cluster r)
       (join_Query_name clusters (join_Ref_name clusters ani_data))"

definition ClusterSummarizer_init :: "ani_row list \<Rightarrow> string \<Rightarrow> nat \<Rightarrow> joined_row list" where
  "ClusterSummarizer_init ani_data clusters_file min_cluster_size =
     merge_cluster_ids (map_members_to_cluster_ids clusters_file min_cluster_size) ani_data"

text \<open>
  \<open>average_ANI_per_cluster\<close>: one group per value of \<open>Ref_cluster\<close>, the mean of \<open>ANI\<close> over
  the group, the rows sorted by the mean. The order in which the data frame library
  lists the groups before sorting is not fixed by it; here it is the order of \<open>remdups\<close>.
\<close>

record summary_row =
  cluster :: nat
  avg_ANI :: real

definition mean :: "real list \<Rightarrow> real" where
  "mean xs = sum_list xs / real (length xs)"

definition groupby_Ref_cluster :: "joined_row list \<Rightarrow> (nat \<times> joined_row list) list" where
  "groupby_Ref_cluster data =
     map (\<lambda>k. (k, filter (\<lambda>r. Ref_cluster r = k) data)) (remdups (map Ref_cluster data))"

definition average_ANI_per_cluster :: "joined_row list \<Rightarrow> summary_row list" where
  "average_ANI_per_cluster ani_data =
     sort_key avg_ANI
       (map (\<lambda>(k, g). \<lparr>cluster = k, avg_ANI = mean (map ANI g)\<rparr>) (groupby_Ref_cluster ani_data))"

definition default_min_cluster_size :: nat where
  "default_min_cluster_size = 2"

section \<open>Paths, files and external programs\<close>

text \<open>
  A path is the string that \<open>pathlib\<close> prints for it. \<open>joinpath\<close> keeps an absolute
  argument and otherwise appends the argument to the directory. \<open>with_suffix\<close> replaces
  the suffix of the last component, the part from its last dot on when that dot is
  neither its first nor its last character, and appends the new suffix otherwise; that
  \<open>pathlib\<close> refuses a path whose last component is empty is left out.
\<close>

type_synonym path = string

definition joinpath :: "path \<Rightarrow> path \<Rightarrow> path" where
  "joinpath dir p =
     (case p of [] \<Rightarrow> dir | c # _ \<Rightarrow> if c = CHR ''/'' then p else dir @ ''/'' @ p)"

definition with_suffix :: "path \<Rightarrow> string \<Rightarrow> path" where
  "with_suffix p new_suffix =
     (let name = rev (takeWhile (\<lambda>c. c \<noteq> CHR ''/'') (rev p));
          after = takeWhile (\<lambda>c. c \<noteq> CHR ''.'') (rev name)
      in if CHR ''.'' \<in> set name \<and> after \<noteq> [] \<and> Suc (length after) < length name
         then take (length p - Suc (length after)) p @ new_suffix
         else p @ new_suffix)"

text \<open>
  The files are a map from paths to contents. An external command is kept as a value
  that names the program and its arguments, in the order of the command line the code
  formats; \<open>program\<close> is the first word of that line.
\<close>

type_synonym store = "path \<rightharpoonup> string"

datatype command =
    Skani_sketch int int int path path
  | Skani_dist string path string path path int int real real int
  | Mcxload path path path
  | Mcl path path real path

fun program :: "command \<Rightarrow> string" where
  "program (Skani_sketch cmp marker threads sketchdir vMAGs) = ''skani''"
| "program (Skani_dist rflag r qflag q out cmp marker screen min_af threads) = ''skani''"
| "program (Mcxload file tabfile matfile) = ''mcxload''"
| "program (Mcl matfile tabfile inflation out) = ''mcl''"

text \<open>
  What the code takes from its surroundings: the working directory, against which a
  relative path is resolved when a file is opened; the programs found on the execution
  path; the effect of an external command on the files; the paths a glob pattern
  matches; and the data frame library's reading and printing of numbers.
\<close>

record env =
  cwd :: path
  on_path :: "string list"
  tool :: "command \<Rightarrow> store \<Rightarrow> store"
  glob :: "store \<Rightarrow> string \<Rightarrow> path list"
  parse_float :: "string \<Rightarrow> real option"
  show_float :: "real \<Rightarrow> string"
  show_int :: "nat \<Rightarrow> string"

text \<open>
  The state a run changes: the files, and the external commands executed so far. A step
  of the run returns a value or the exception it raises, together with the state it
  leaves.
\<close>

record world =
  files :: store
  executed :: "command list"

type_synonym 'a run = "world \<Rightarrow> (error + 'a) \<times> world"

definition ret :: "'a \<Rightarrow> 'a run" where
  "ret a w = (Inr a, w)"

definition raise :: "error \<Rightarrow> 'a run" where
  "raise e w = (Inl e, w)"

definition then_run :: "'a run \<Rightarrow> ('a \<Rightarrow> 'b run) \<Rightarrow> 'b run" where
  "then_run m f w = (case m w of (Inl e, w') \<Rightarrow> (Inl e, w') | (Inr a, w') \<Rightarrow> f a w')"

definition lift :: "error + 'a \<Rightarrow> 'a run" where
  "lift r w = (r, w)"

definition which :: "env \<Rightarrow> string \<Rightarrow> bool" where
  "which E name \<longleftrightarrow> name \<in> set (on_path E)"

text \<open>\<open>subprocess.run\<close> raises \<open>FileNotFoundError\<close> when the program is not found.\<close>

definition subprocess_run :: "env \<Rightarrow> command \<Rightarrow> unit run" where
  "subprocess_run E cmd w =
     (if which E (program cmd)
      then (Inr (), w\<lparr>files := tool E cmd (files w), executed := executed w @ [cmd]\<rparr>)
      else (Inl FileNotFoundError, w))"

definition abspath :: "env \<Rightarrow> path \<Rightarrow> path" where
  "abspath E p = joinpath (cwd E) p"

definition open_read :: "env \<Rightarrow> path \<Rightarrow> string run" where
  "open_read E p w =
     (case files w (abspath E p) of None \<Rightarrow> (Inl FileNotFoundError, w) | Some s \<Rightarrow> (Inr s, w))"

definition write_file :: "env \<Rightarrow> path \<Rightarrow> string \<Rightarrow> unit run" where
  "write_file E p s w = (Inr (), w\<lparr>files := (files w)(abspath E p \<mapsto> s)\<rparr>)"

definition append_file :: "env \<Rightarrow> path \<Rightarrow> string \<Rightarrow> unit run" where
  "append_file E p s w =
     (Inr (), w\<lparr>files := (files w)(abspath E p \<mapsto>
        (case files w (abspath E p) of None \<Rightarrow> s | Some old \<Rightarrow> old @ s))\<rparr>)"

definition remove :: "env \<Rightarrow> path \<Rightarrow> unit run" where
  "remove E p w =
     (case files w (abspath E p) of None \<Rightarrow> (Inl FileNotFoundError, w)
      | Some _ \<Rightarrow> (Inr (), w\<lparr>files := (files w)(abspath E p := None)\<rparr>))"

definition unlines :: "string list \<Rightarrow> string" where
  "unlines ls = concat (map (\<lambda>l. l @ [newline]) ls)"

section \<open>\<open>vskani/skani/vskani.py\<close>\<close>

text \<open>
  Logging and the creation of the output directory are left out. \<open>run_and_log_command\<close>
  is then the call of \<open>subprocess.run\<close>.
\<close>

definition run_and_log_command :: "env \<Rightarrow> command \<Rightarrow> unit run" where
  "run_and_log_command E cmd = subprocess_run E cmd"

definition glob_all_vmags :: "env \<Rightarrow> path \<Rightarrow> string \<Rightarrow> world \<Rightarrow> path list" where
  "glob_all_vmags E vmag_dir ext w = glob E (files w) (joinpath vmag_dir (''*'' @ ext))"

definition sketch :: "env \<Rightarrow> path \<Rightarrow> path \<Rightarrow> string \<Rightarrow> int \<Rightarrow> int \<Rightarrow> int \<Rightarrow> unit run" where
  "sketch E vmag_dir outdir ext cmp marker threads =
     (let vMAGs = joinpath outdir ''vMAGs_filenames.txt'';
          sketchdir = joinpath outdir ''vMAGs_sketches'';
          sketchfile = joinpath outdir ''vMAGs_sketches.txt''
      in then_run (\<lambda>w. write_file E vMAGs (unlines (glob_all_vmags E vmag_dir ext w)) w) (\<lambda>_.
         then_run (run_and_log_command E (Skani_sketch cmp marker threads sketchdir vMAGs)) (\<lambda>_.
         (\<lambda>w. write_file E sketchfile (unlines (glob E (files w) (sketchdir @ ''/*.sketch''))) w))))"

definition str_path :: "path option \<Rightarrow> string" where
  "str_path p = (case p of None \<Rightarrow> ''None'' | Some s \<Rightarrow> s)"

definition skani :: "env \<Rightarrow> path option \<Rightarrow> path option \<Rightarrow> path \<Rightarrow> int \<Rightarrow> int \<Rightarrow> real \<Rightarrow> real \<Rightarrow> int
    \<Rightarrow> path run" where
  "skani E contigfile vmag_dir outdir cmp marker screen min_af threads =
     (let sketchfile = joinpath outdir ''vMAGs_sketches.txt'';
          (rflag, r, qflag, q, out) =
            (if vmag_dir \<noteq> None then
               (if contigfile \<noteq> None
                then (''--rl'', sketchfile, ''--qi'', str_path contigfile, ''unbinned-vMAGs_skani_ANI.tsv'')
                else (''--rl'', sketchfile, ''--ql'', sketchfile, ''vMAGs-vMAGs_skani_ANI.tsv''))
             else (''--ri'', str_path contigfile, ''--qi'', str_path contigfile,
                   ''unbinned-unbinned_skani_ANI.tsv''));
          output = joinpath outdir out
      in then_run
           (run_and_log_command E (Skani_dist rflag r qflag q output cmp marker screen min_af threads))
           (\<lambda>_. ret output))"

text \<open>
  The loop that concatenates the result files: the destination is open for writing, and
  each result in turn is opened, loses its first line unless it is the first result, is
  copied to the destination and is removed.
\<close>

fun copy_results :: "env \<Rightarrow> nat \<Rightarrow> path list \<Rightarrow> path \<Rightarrow> unit run" where
  "copy_results E i [] fdst = ret ()"
| "copy_results E i (result # rest) fdst =
     then_run (open_read E result) (\<lambda>fsrc.
     then_run (append_file E fdst (if i \<noteq> 0 then snd (readline fsrc) else fsrc)) (\<lambda>_.
     then_run (remove E result) (\<lambda>_.
     copy_results E (Suc i) rest fdst)))"

definition concat_results :: "env \<Rightarrow> path list \<Rightarrow> path \<Rightarrow> unit run" where
  "concat_results E results fdst =
     then_run (write_file E fdst []) (\<lambda>_. copy_results E 0 results fdst)"

definition vskani_main :: "env \<Rightarrow> path option \<Rightarrow> path option \<Rightarrow> path \<Rightarrow> path \<Rightarrow> string \<Rightarrow>
    int \<Rightarrow> int \<Rightarrow> real \<Rightarrow> real \<Rightarrow> int \<Rightarrow> unit run" where
  "vskani_main E contigfile vmag_dir output outdir ext cmp marker screen min_af threads =
     (if contigfile = None \<and> vmag_dir = None
      then raise (RuntimeError ''At least one of -c and -d flags need to be supplied'')
      else if \<not> which E ''skani''
      then raise (RuntimeError ''Cannot find path to skani'')
      else
        then_run
          (case vmag_dir of
             None \<Rightarrow> ret []
           | Some d \<Rightarrow>
               then_run (sketch E d outdir ext cmp marker threads) (\<lambda>_.
               then_run (skani E None vmag_dir outdir cmp marker screen min_af threads) (\<lambda>result.
               ret [result]))) (\<lambda>results1.
        then_run
          (if contigfile \<noteq> None
           then then_run (skani E contigfile None outdir cmp marker screen min_af threads) (\<lambda>result.
                ret (results1 @ [result]))
           else ret results1) (\<lambda>results2.
        then_run
          (if contigfile \<noteq> None \<and> vmag_dir \<noteq> None
           then then_run (skani E contigfile vmag_dir outdir cmp marker screen min_af threads) (\<lambda>result.
                ret (results2 @ [result]))
           else ret results2) (\<lambda>results.
        concat_results E results (joinpath outdir output)))))"

section \<open>Data frames read from and written to files\<close>

text \<open>
  The data frame library's reader, taken for tab-separated text without quoting: the
  first line gives the column names, every further line a row of cells. A column is
  looked up by name; a missing name raises \<open>ColumnNotFoundError\<close>, a row without the cell
  or a cell that is not a number where one is needed raises \<open>ComputeError\<close>, and text
  without any line raises \<open>NoDataError\<close>.
\<close>

record frame =
  columns :: "string list"
  cells :: "string list list"

definition chomp :: "string \<Rightarrow> string" where
  "chomp s = (case rev s of [] \<Rightarrow> [] | c # r \<Rightarrow> if c = newline then rev r else s)"

definition read_csv :: "string \<Rightarrow> error + frame" where
  "read_csv text =
     (case map (\<lambda>l. str_split tab (chomp l)) (file_lines text) of
        [] \<Rightarrow> Inl NoDataError
      | header # body \<Rightarrow> Inr \<lparr>columns = header, cells = body\<rparr>)"

fun index_of :: "'a \<Rightarrow> 'a list \<Rightarrow> nat option" where
  "index_of x [] = None"
| "index_of x (y # ys) = (if x = y then Some 0 else map_option Suc (index_of x ys))"

definition and_then :: "error + 'a \<Rightarrow> ('a \<Rightarrow> error + 'b) \<Rightarrow> error + 'b" where
  "and_then r f = (case r of Inl e \<Rightarrow> Inl e | Inr a \<Rightarrow> f a)"

fun collect :: "(error + 'a) list \<Rightarrow> error + 'a list" where
  "collect [] = Inr []"
| "collect (r # rs) = and_then r (\<lambda>a. and_then (collect rs) (\<lambda>as. Inr (a # as)))"

definition str_column :: "frame \<Rightarrow> string \<Rightarrow> error + string list" where
  "str_column f name =
     (case index_of name (columns f) of
        None \<Rightarrow> Inl (ColumnNotFoundError name)
      | Some i \<Rightarrow> collect (map (\<lambda>row. if i < length row then Inr (row ! i) else Inl ComputeError) (cells f)))"

definition float_column :: "env \<Rightarrow> frame \<Rightarrow> string \<Rightarrow> error + real list" where
  "float_column E f name =
     and_then (str_column f name) (\<lambda>col.
     collect (map (\<lambda>c. case parse_float E c of None \<Rightarrow> Inl ComputeError | Some x \<Rightarrow> Inr x) col))"

section \<open>\<open>SkaniPreprocessor\<close> on files\<close>

text \<open>
  The constructor reads the table. \<open>process\<close> and \<open>save\<close> use the five named columns of it
  and write the edge list without a header line.
\<close>

definition SkaniPreprocessor_init :: "env \<Rightarrow> path \<Rightarrow> frame run" where
  "SkaniPreprocessor_init E file = then_run (open_read E file) (\<lambda>text. lift (read_csv text))"

fun zip_skani_rows :: "string list \<Rightarrow> string list \<Rightarrow> real list \<Rightarrow> real list \<Rightarrow> real list \<Rightarrow> skani_row list" where
  "zip_skani_rows (r # rs) (q # qs) (a # as) (x # xs) (y # ys) =
     \<lparr>Ref_name = r, Query_name = q, ANI = a, Align_fraction_ref = x, Align_fraction_query = y\<rparr>
       # zip_skani_rows rs qs as xs ys"
| "zip_skani_rows _ _ _ _ _ = []"

definition skani_rows :: "env \<Rightarrow> frame \<Rightarrow> error + skani_row list" where
  "skani_rows E f =
     and_then (str_column f ''Ref_name'') (\<lambda>refs.
     and_then (str_column f ''Query_name'') (\<lambda>queries.
     and_then (float_column E f ''ANI'') (\<lambda>anis.
     and_then (float_column E f ''Align_fraction_ref'') (\<lambda>afrs.
     and_then (float_column E f ''Align_fraction_query'') (\<lambda>afqs.
     Inr (zip_skani_rows refs queries anis afrs afqs))))))"

definition edge_line :: "env \<Rightarrow> string \<times> string \<times> real \<Rightarrow> string" where
  "edge_line E e = (case e of (r, q, w) \<Rightarrow> r @ [tab] @ q @ [tab] @ show_float E w)"

definition SkaniPreprocessor_save :: "env \<Rightarrow> path \<Rightarrow> edge_row list \<Rightarrow> unit run" where
  "SkaniPreprocessor_save E output data =
     write_file E output (unlines (map (\<lambda>e. edge_line E (select_cols e)) data))"

definition SkaniPreprocessor_process_and_save :: "env \<Rightarrow> real \<Rightarrow> real \<Rightarrow> path \<Rightarrow> frame \<Rightarrow> unit run" where
  "SkaniPreprocessor_process_and_save E t_ani t_af output f =
     then_run (lift (skani_rows E f)) (\<lambda>data.
     SkaniPreprocessor_save E output (SkaniPreprocessor_process t_ani t_af data))"

section \<open>\<open>vskani/mcl/__init__.py\<close>\<close>

definition mcxload :: "env \<Rightarrow> path \<Rightarrow> path \<Rightarrow> path \<Rightarrow> unit run" where
  "mcxload E file tabfile matfile = subprocess_run E (Mcxload file tabfile matfile)"

definition mcl :: "env \<Rightarrow> path \<Rightarrow> path \<Rightarrow> path \<Rightarrow> real \<Rightarrow> unit run" where
  "mcl E tabfile matfile output inflation = subprocess_run E (Mcl matfile tabfile inflation output)"

definition mcl_run :: "env \<Rightarrow> path \<Rightarrow> path \<Rightarrow> path \<Rightarrow> path \<Rightarrow> real \<Rightarrow> unit run" where
  "mcl_run E file tabfile matfile output inflation =
     then_run (mcxload E file tabfile matfile) (\<lambda>_. mcl E tabfile matfile output inflation)"

section \<open>\<open>ClusterSummarizer\<close> on files\<close>

text \<open>
  \<open>ClusterSummarizer_new\<close> is the constructor on files: it reads the table first, then the
  clusters file, and joins as \<open>ClusterSummarizer_init\<close> does on the rows read. The joins
  need the two name columns; the summary needs the column \<open>ANI\<close>. The summary is written
  with its header line.
\<close>

fun zip_ani_rows :: "string list \<Rightarrow> string list \<Rightarrow> real list \<Rightarrow> ani_row list" where
  "zip_ani_rows (r # rs) (q # qs) (a # as) =
     \<lparr>Ref_name = r, Query_name = q, ANI = a\<rparr> # zip_ani_rows rs qs as"
| "zip_ani_rows _ _ _ = []"

definition ani_rows :: "env \<Rightarrow> frame \<Rightarrow> error + ani_row list" where
  "ani_rows E f =
     and_then (str_column f ''Ref_name'') (\<lambda>refs.
     and_then (str_column f ''Query_name'') (\<lambda>queries.
     and_then (float_column E f ''ANI'') (\<lambda>anis.
     Inr (zip_ani_rows refs queries anis))))"

definition ClusterSummarizer_new :: "env \<Rightarrow> path \<Rightarrow> path \<Rightarrow> nat \<Rightarrow> joined_row list run" where
  "ClusterSummarizer_new E skani_file clusters_file min_cluster_size =
     then_run (open_read E skani_file) (\<lambda>text.
     then_run (lift (read_csv text)) (\<lambda>f.
     then_run (open_read E clusters_file) (\<lambda>clusters.
     then_run (lift (ani_rows E f)) (\<lambda>ani_data.
     ret (ClusterSummarizer_init ani_data clusters min_cluster_size)))))"

definition summary_line :: "env \<Rightarrow> summary_row \<Rightarrow> string" where
  "summary_line E s = show_int E (cluster s) @ [tab] @ show_float E (avg_ANI s)"

definition ClusterSummarizer_summarize_and_save :: "env \<Rightarrow> path \<Rightarrow> joined_row list \<Rightarrow> unit run" where
  "ClusterSummarizer_summarize_and_save E output ani_data =
     write_file E output
       (unlines ((''cluster'' @ [tab] @ ''avg_ANI'') # map (summary_line E) (average_ANI_per_cluster ani_data)))"

section \<open>Command-line arguments\<close>

text \<open>
  What \<open>argparse\<close> returns: one namespace per subcommand, with the attributes that the
  subcommand's parser defines, or the namespace of a call without subcommand. The
  attribute names are prefixed here, since the attributes \<open>input\<close>, \<open>output\<close> and \<open>threads\<close>
  occur under several subcommands.
\<close>

record skani_namespace =
  ns_contigs :: "path option"
  ns_vmag_dir :: "path option"
  ns_ext :: string
  ns_outdir :: path
  ns_output :: path
  ns_compression_factor :: int
  ns_marker :: int
  ns_screen :: real
  ns_min_af :: real
  ns_threads :: int
  ns_command_log :: path
  ns_log :: path
  ns_output_processed :: path
  ns_min_ani :: real
  ns_min_cov :: real

record all_namespace = skani_namespace +
  ns_mcl_output :: path
  ns_inflation :: real
  ns_summary_output :: path

record mcl_namespace =
  mcl_ns_input :: path
  mcl_ns_mcl_output :: path
  mcl_ns_inflation :: real

record summarize_namespace =
  sum_ns_input :: path
  sum_ns_threads :: int
  sum_ns_mcl_output :: path
  sum_ns_output :: path

datatype namespace =
    Ns_skani skani_namespace
  | Ns_mcl mcl_namespace
  | Ns_all all_namespace
  | Ns_summarize summarize_namespace
  | Ns_none

section \<open>\<open>vskani/skani/_cli.py\<close>: the argument classes\<close>

record IOArgs =
  contigs :: "path option"
  vmag_dir :: "path option"
  outdir :: path
  skani_output :: path
  processed_output :: path
  ext :: string

text \<open>
  The field \<open>log\<close> of \<open>LogArgs\<close> is \<open>log_file\<close> here and the field \<open>skani\<close> of \<open>VSkaniArgs\<close> is
  \<open>skani_args\<close>; \<open>PreprocessingArgs\<close> is defined with the threshold validation above.
\<close>

record LogArgs =
  command_log :: path
  log_file :: path

record SkaniArgs =
  compression_factor :: int
  marker :: int
  screen :: real
  min_af :: real

record VSkaniArgs =
  io :: IOArgs
  skani_args :: SkaniArgs
  logger :: LogArgs
  preprocessing :: PreprocessingArgs
  threads :: int

definition VSkaniArgs_init :: "IOArgs \<Rightarrow> SkaniArgs \<Rightarrow> LogArgs \<Rightarrow> PreprocessingArgs \<Rightarrow> int
    \<Rightarrow> error + VSkaniArgs" where
  "VSkaniArgs_init i s l p t =
     (if contigs i = None \<and> vmag_dir i = None
      then Inl (RuntimeError ''One of --contigs or --vmag-dir is required.'')
      else Inr \<lparr>io = i, skani_args = s, logger = l, preprocessing = p, threads = t\<rparr>)"

text \<open>
  \<open>parse_args\<close> of the similarity stage. The attributes exist in the namespaces of
  \<open>skani\<close> and \<open>all\<close>; in the others the first attribute read is missing, and the
  \<open>AttributeError\<close> is caught and turned into \<open>None\<close>.
\<close>

definition skani_parse :: "'a skani_namespace_scheme \<Rightarrow> error + VSkaniArgs" where
  "skani_parse ap_args =
     (let io_args = \<lparr>contigs = ns_contigs ap_args, vmag_dir = ns_vmag_dir ap_args,
                     outdir = ns_outdir ap_args, skani_output = ns_output ap_args,
                     processed_output = ns_output_processed ap_args, ext = ns_ext ap_args\<rparr>;
          skani_args = \<lparr>compression_factor = ns_compression_factor ap_args,
                        marker = ns_marker ap_args, screen = ns_screen ap_args,
                        min_af = ns_min_af ap_args\<rparr>;
          log_args = \<lparr>command_log = joinpath (ns_outdir ap_args) (ns_command_log ap_args),
                      log_file = joinpath (ns_outdir ap_args) (ns_log ap_args)\<rparr>
      in and_then (PreprocessingArgs_init (ns_min_ani ap_args) (ns_min_cov ap_args))
           (\<lambda>preprocessing_args.
         VSkaniArgs_init io_args skani_args log_args preprocessing_args (ns_threads ap_args)))"

definition skani_parse_args :: "namespace \<Rightarrow> error + VSkaniArgs option" where
  "skani_parse_args ap_args =
     (case ap_args of
        Ns_skani ns \<Rightarrow> and_then (skani_parse ns) (\<lambda>a. Inr (Some a))
      | Ns_all ns \<Rightarrow> and_then (skani_parse ns) (\<lambda>a. Inr (Some a))
      | _ \<Rightarrow> Inr None)"

section \<open>\<open>vskani/mcl/_cli.py\<close> and \<open>vskani/mcl/utils.py\<close>: the argument classes\<close>

text \<open>
  The fields \<open>input\<close> and \<open>output\<close> of \<open>MclArgs\<close> are \<open>input_file\<close> and \<open>output_file\<close> here, the
  fields \<open>output\<close> and \<open>threads\<close> of \<open>SummaryArgs\<close> are \<open>summary_output\<close> and \<open>summary_threads\<close>.
\<close>

record MclArgs =
  input_file :: path
  output_file :: path
  inflation :: real
  tabfile :: path
  matfile :: path

definition MclArgs_init :: "path \<Rightarrow> path \<Rightarrow> real \<Rightarrow> MclArgs" where
  "MclArgs_init i out infl =
     \<lparr>input_file = i, output_file = out, inflation = infl,
      tabfile = with_suffix i ''.mcxload'', matfile = with_suffix i ''.mci''\<rparr>"

text \<open>
  Under \<open>skani\<close> the attribute \<open>mcl_output\<close> is missing, under \<open>summarize\<close> the attribute
  \<open>inflation\<close>, and without subcommand the attribute \<open>input\<close>.
\<close>

definition mcl_parse_args :: "namespace \<Rightarrow> MclArgs option" where
  "mcl_parse_args ap_args =
     (case ap_args of
        Ns_all ns \<Rightarrow> Some (MclArgs_init (ns_output_processed ns) (ns_mcl_output ns) (ns_inflation ns))
      | Ns_mcl ns \<Rightarrow> Some (MclArgs_init (mcl_ns_input ns) (mcl_ns_mcl_output ns) (mcl_ns_inflation ns))
      | _ \<Rightarrow> None)"

record SummaryArgs =
  skani_input :: path
  mcl_output :: path
  summary_output :: path
  summary_threads :: int

text \<open>
  In the namespace of \<open>all\<close> the table to summarise is the attribute \<open>output\<close>, the output
  of the similarity stage. Under \<open>skani\<close> the attribute \<open>summary_output\<close> is missing, under
  \<open>mcl\<close> the attribute \<open>output\<close>.
\<close>

definition summary_parse_args :: "namespace \<Rightarrow> SummaryArgs option" where
  "summary_parse_args ap_args =
     (case ap_args of
        Ns_all ns \<Rightarrow> Some \<lparr>skani_input = ns_output ns, mcl_output = ns_mcl_output ns,
                        summary_output = ns_summary_output ns, summary_threads = ns_threads ns\<rparr>
      | Ns_summarize ns \<Rightarrow> Some \<lparr>skani_input = sum_ns_input ns, mcl_output = sum_ns_mcl_output ns,
                        summary_output = sum_ns_output ns, summary_threads = sum_ns_threads ns\<rparr>
      | _ \<Rightarrow> None)"

section \<open>\<open>vskani/main.py\<close>\<close>

text \<open>
  The fields of \<open>Args\<close> carry the prefix \<open>args\<close>. Printing the arguments and the setting of
  the thread count of the data frame library are left out. The preprocessing that the
  branches \<open>all\<close> and \<open>skani\<close> of \<open>main\<close> both spell out after the similarity stage is
  written once, in \<open>run_skani\<close>.
\<close>

datatype command_name = Cmd_skani | Cmd_mcl | Cmd_all | Cmd_summarize

record Args =
  args_skani :: "VSkaniArgs option"
  args_mcl :: "MclArgs option"
  args_summary :: "SummaryArgs option"
  args_command :: "command_name option"

definition command_of :: "namespace \<Rightarrow> command_name option" where
  "command_of ap_args =
     (case ap_args of
        Ns_skani _ \<Rightarrow> Some Cmd_skani | Ns_mcl _ \<Rightarrow> Some Cmd_mcl | Ns_all _ \<Rightarrow> Some Cmd_all
      | Ns_summarize _ \<Rightarrow> Some Cmd_summarize | Ns_none \<Rightarrow> None)"

definition parse_args :: "namespace \<Rightarrow> error + Args" where
  "parse_args ap_args =
     and_then (skani_parse_args ap_args) (\<lambda>skani_args.
     Inr \<lparr>args_skani = skani_args, args_mcl = mcl_parse_args ap_args,
          args_summary = summary_parse_args ap_args, args_command = command_of ap_args\<rparr>)"

text \<open>
  Reading an attribute of an argument object that is \<open>None\<close> raises \<open>AttributeError\<close>.
\<close>

definition attr :: "'a option \<Rightarrow> 'a run" where
  "attr a = (case a of None \<Rightarrow> raise AttributeError | Some x \<Rightarrow> ret x)"

definition run_skani :: "env \<Rightarrow> VSkaniArgs \<Rightarrow> unit run" where
  "run_skani E a =
     then_run
       (vskani_main E (contigs (io a)) (vmag_dir (io a)) (skani_output (io a)) (outdir (io a))
          (ext (io a)) (compression_factor (skani_args a)) (marker (skani_args a))
          (screen (skani_args a)) (min_af (skani_args a)) (threads a)) (\<lambda>_.
     then_run (SkaniPreprocessor_init E (skani_output (io a))) (\<lambda>preprocessor.
     SkaniPreprocessor_process_and_save E (min_ani (preprocessing a)) (min_cov (preprocessing a))
       (processed_output (io a)) preprocessor))"

definition run_command :: "env \<Rightarrow> Args \<Rightarrow> unit run" where
  "run_command E args =
     (case args_command args of
        Some Cmd_all \<Rightarrow>
          then_run (attr (args_skani args)) (\<lambda>a.
          then_run (run_skani E a) (\<lambda>_.
          then_run (attr (args_mcl args)) (\<lambda>m.
          then_run (mcl_run E (processed_output (io a)) (tabfile m) (matfile m) (output_file m) (inflation m)) (\<lambda>_.
          then_run (ClusterSummarizer_new E (processed_output (io a)) (output_file m) default_min_cluster_size)
            (\<lambda>summarizer.
          then_run (attr (args_summary args)) (\<lambda>s.
          ClusterSummarizer_summarize_and_save E (summary_output s) summarizer))))))
      | Some Cmd_skani \<Rightarrow>
          then_run (attr (args_skani args)) (\<lambda>a. run_skani E a)
      | Some Cmd_mcl \<Rightarrow>
          then_run (attr (args_skani args)) (\<lambda>a.
          then_run (attr (args_mcl args)) (\<lambda>m.
          mcl_run E (processed_output (io a)) (tabfile m) (matfile m) (output_file m) (inflation m)))
      | Some Cmd_summarize \<Rightarrow>
          then_run (attr (args_summary args)) (\<lambda>s.
          then_run (ClusterSummarizer_new E (skani_input s) (mcl_output s) default_min_cluster_size)
            (\<lambda>summarizer.
          ClusterSummarizer_summarize_and_save E (summary_output s) summarizer))
      | None \<Rightarrow> ret ())"

definition main :: "env \<Rightarrow> namespace \<Rightarrow> unit run" where
  "main E ap_args = then_run (lift (parse_args ap_args)) (\<lambda>args. run_command E args)"

section \<open>\<open>python/preprocess.py\<close>: arguments and \<open>main\<close>\<close>

definition preprocess_py_check_range :: "real \<Rightarrow> real \<Rightarrow> real \<Rightarrow> string \<Rightarrow> error + unit" where
  "preprocess_py_check_range val lo hi name =
     (if \<not> (lo \<le> val \<and> val \<le> hi) then Inl (ValueError name) else Inr ())"

record preprocess_py_Args =
  py_input :: path
  py_output :: path
  py_threads :: int
  py_min_ani :: real
  py_min_cov :: real

definition preprocess_py_parse_args :: "path \<Rightarrow> path \<Rightarrow> int \<Rightarrow> real \<Rightarrow> real
    \<Rightarrow> error + preprocess_py_Args" where
  "preprocess_py_parse_args i out t a c =
     and_then (preprocess_py_check_range a 0 1 ''--min-ani'') (\<lambda>_.
     and_then (preprocess_py_check_range c 0 1 ''--min-cov'') (\<lambda>_.
     Inr \<lparr>py_input = i, py_output = out, py_threads = t,
          py_min_ani = double_mul a 100, py_min_cov = double_mul c 100\<rparr>))"

definition preprocess_py_main :: "preprocess_py_Args \<Rightarrow> skani_row list \<Rightarrow> (string \<times> string \<times> real) list" where
  "preprocess_py_main args data =
     map (\<lambda>r. (Ref_name r, Query_name r,
               min (Align_fraction_query r) (Align_fraction_ref r) * ANI r / 100))
       (preprocess_py_filter (py_min_ani args) (py_min_cov args) data)"

section \<open>A run of the full pipeline\<close>

text \<open>
  A working directory \<open>/w\<close> and one file of contigs. The similarity tool writes a table of
  two rows, the comparison of \<open>g1\<close> with \<open>g2\<close> and the comparison of \<open>g1\<close> with itself; the
  clustering tool writes one cluster with the members \<open>g1\<close> and \<open>g2\<close>. The options are the
  defaults of the command line; the value of \<open>--min-ani\<close> is the double that the default
  \<open>0.95\<close> denotes.
\<close>

definition example_table :: string where
  "example_table =
     ''Ref_file'' @ [tab] @ ''Query_file'' @ [tab] @ ''ANI'' @ [tab] @ ''Align_fraction_ref'' @ [tab] @
       ''Align_fraction_query'' @ [tab] @ ''Ref_name'' @ [tab] @ ''Query_name'' @ [newline] @
     ''c.fna'' @ [tab] @ ''c.fna'' @ [tab] @ ''99'' @ [tab] @ ''90'' @ [tab] @ ''80'' @ [tab] @
       ''g1'' @ [tab] @ ''g2'' @ [newline] @
     ''c.fna'' @ [tab] @ ''c.fna'' @ [tab] @ ''100'' @ [tab] @ ''100'' @ [tab] @ ''100'' @ [tab] @
       ''g1'' @ [tab] @ ''g1'' @ [newline]"

fun example_tool :: "command \<Rightarrow> store \<Rightarrow> store" where
  "example_tool (Skani_dist rflag r qflag q out c m s a t) fs = fs(joinpath ''/w'' out \<mapsto> example_table)"
| "example_tool (Mcl mat tb infl out) fs = fs(joinpath ''/w'' out \<mapsto> ''g1'' @ [tab] @ ''g2'' @ [newline])"
| "example_tool _ fs = fs"

definition example_parse_float :: "string \<Rightarrow> real option" where
  "example_parse_float s =
     (if s = ''99'' then Some 99 else if s = ''90'' then Some 90 else if s = ''80'' then Some 80
      else if s = ''100'' then Some 100 else None)"

definition example_show_float :: "real \<Rightarrow> string" where
  "example_show_float x = (if x = 99 / 125 then ''0.792'' else if x = 199 / 2 then ''99.5'' else ''?'')"

definition example_env :: env where
  "example_env =
     \<lparr>cwd = ''/w'', on_path = [''skani'', ''mcxload'', ''mcl''], tool = example_tool,
      glob = (\<lambda>fs pattern. []), parse_float = example_parse_float,
      show_float = example_show_float, show_int = (\<lambda>n. if n = 0 then ''0'' else ''?'')\<rparr>"

definition example_namespace :: all_namespace where
  "example_namespace =
     \<lparr>ns_contigs = Some ''/d/contigs.fna'', ns_vmag_dir = None, ns_ext = ''.fna'',
      ns_outdir = ''/w'', ns_output = ''skani_ANI.tsv'', ns_compression_factor = 125,
      ns_marker = 1000, ns_screen = 80, ns_min_af = 15, ns_threads = 15,
      ns_command_log = ''commands.log'', ns_log = ''skani.log'',
      ns_output_processed = ''skani_processed.tsv'',
      ns_min_ani = 4278419646001971 / 4503599627370496, ns_min_cov = 1 / 2,
      ns_mcl_output = ''dereplicated_virus.clusters'', ns_inflation = 2,
      ns_summary_output = ''ani_per_cluster.tsv''\<rparr>"

definition empty_world :: world where
  "empty_world = \<lparr>files = Map.empty, executed = []\<rparr>"

section \<open>Properties of the preprocessor\<close>

lemma SkaniPreprocessor_preprocess_set:
  "set (SkaniPreprocessor_preprocess t_ani t_af data) =
     {r \<in> set data. Ref_name r \<noteq> Query_name r \<and> ANI r \<ge> t_ani \<and>
        (Align_fraction_ref r \<ge> t_af \<or> Align_fraction_query r \<ge> t_af)}"
  by (auto simp: SkaniPreprocessor_preprocess_def filter_self_comparisons_def
      filter_min_ani_def filter_min_af_def)

lemma preprocess_py_filter_eq:
  "preprocess_py_filter t_ani t_af data = SkaniPreprocessor_preprocess t_ani t_af data"
  by (simp add: preprocess_py_filter_def SkaniPreprocessor_preprocess_def
      filter_self_comparisons_def filter_min_ani_def filter_min_af_def)



text \<open>
  Claim C1. A row is in the data after \<open>_preprocess\<close> exactly when it is a row of the
  input table whose reference name differs from its query name, whose identity is at
  least \<open>min_ani\<close> and one of whose aligned fractions is at least \<open>min_af\<close>; the filter
  of the standalone script keeps the same rows; and every edge written by \<open>save\<close> after
  \<open>process\<close> comes from an input row with the three properties.
\<close>

theorem preprocess_keeps_iff:
  "(r \<in> set (SkaniPreprocessor_preprocess t_ani t_af data) \<longleftrightarrow>
      r \<in> set data \<and> Ref_name r \<noteq> Query_name r \<and> ANI r \<ge> t_ani \<and>
      (Align_fraction_ref r \<ge> t_af \<or> Align_fraction_query r \<ge> t_af))
   \<and> (r \<in> set (preprocess_py_filter t_ani t_af data) \<longleftrightarrow>
      r \<in> set data \<and> Ref_name r \<noteq> Query_name r \<and> ANI r \<ge> t_ani \<and>
      (Align_fraction_ref r \<ge> t_af \<or> Align_fraction_query r \<ge> t_af))
   \<and> (\<forall>e \<in> set (map select_cols (SkaniPreprocessor_process t_ani t_af data)).
        \<exists>s \<in> set data. e = (Ref_name s, Query_name s, edge_weights s) \<and>
          Ref_name s \<noteq> Query_name s \<and> ANI s \<ge> t_ani \<and>
          (Align_fraction_ref s \<ge> t_af \<or> Align_fraction_query s \<ge> t_af))"
proof (intro conjI)
  show "\<forall>e \<in> set (map select_cols (SkaniPreprocessor_process t_ani t_af data)).
        \<exists>s \<in> set data. e = (Ref_name s, Query_name s, edge_weights s) \<and>
          Ref_name s \<noteq> Query_name s \<and> ANI s \<ge> t_ani \<and>
          (Align_fraction_ref s \<ge> t_af \<or> Align_fraction_query s \<ge> t_af)"
  proof
    fix e
    assume "e \<in> set (map select_cols (SkaniPreprocessor_process t_ani t_af data))"
    then obtain s where s: "s \<in> set (SkaniPreprocessor_preprocess t_ani t_af data)"
      and e: "e = select_cols (with_edge_weights s)"
      by (auto simp: SkaniPreprocessor_process_def SkaniPreprocessor_create_edge_weights_def)
    from e have "e = (Ref_name s, Query_name s, edge_weights s)"
      by (simp add: select_cols_def with_edge_weights_def)
    with s show "\<exists>s \<in> set data. e = (Ref_name s, Query_name s, edge_weights s) \<and>
          Ref_name s \<noteq> Query_name s \<and> ANI s \<ge> t_ani \<and>
          (Align_fraction_ref s \<ge> t_af \<or> Align_fraction_query s \<ge> t_af)"
      unfolding SkaniPreprocessor_preprocess_set by blast
  qed
qed (simp_all add: SkaniPreprocessor_preprocess_set preprocess_py_filter_eq)

theorem preprocess_keeps_iff_witness:
  "set (SkaniPreprocessor_preprocess 95 50
      [\<lparr>Ref_name = ''g1'', Query_name = ''g2'', ANI = 97,
         Align_fraction_ref = 40, Align_fraction_query = 80\<rparr>,
       \<lparr>Ref_name = ''g1'', Query_name = ''g1'', ANI = 100,
         Align_fraction_ref = 100, Align_fraction_query = 100\<rparr>]) =
   {\<lparr>Ref_name = ''g1'', Query_name = ''g2'', ANI = 97,
      Align_fraction_ref = 40, Align_fraction_query = 80\<rparr>}
   \<and> set (map select_cols (SkaniPreprocessor_process 95 50
      [\<lparr>Ref_name = ''g1'', Query_name = ''g2'', ANI = 97,
         Align_fraction_ref = 40, Align_fraction_query = 80\<rparr>,
       \<lparr>Ref_name = ''g1'', Query_name = ''g1'', ANI = 100,
         Align_fraction_ref = 100, Align_fraction_query = 100\<rparr>])) \<noteq> {}"
proof -
  let ?r1 = "\<lparr>Ref_name = ''g1'', Query_name = ''g2'', ANI = 97,
         Align_fraction_ref = 40, Align_fraction_query = 80\<rparr>"
  let ?r2 = "\<lparr>Ref_name = ''g1'', Query_name = ''g1'', ANI = 100,
         Align_fraction_ref = 100, Align_fraction_query = 100\<rparr>"
  have a: "?r1 \<in> set (SkaniPreprocessor_preprocess 95 50 [?r1, ?r2])"
    using preprocess_keeps_iff [of ?r1 95 50 "[?r1, ?r2]"] by simp
  have b: "?r2 \<notin> set (SkaniPreprocessor_preprocess 95 50 [?r1, ?r2])"
    using preprocess_keeps_iff [of ?r2 95 50 "[?r1, ?r2]"] by simp
  have c: "set (SkaniPreprocessor_preprocess 95 50 [?r1, ?r2]) \<subseteq> {?r1, ?r2}"
    by (auto simp: SkaniPreprocessor_preprocess_def)
  have d: "set (map select_cols (SkaniPreprocessor_process 95 50 [?r1, ?r2])) \<noteq> {}"
    using a by (auto simp: SkaniPreprocessor_process_def SkaniPreprocessor_create_edge_weights_def)
  from a b c have "set (SkaniPreprocessor_preprocess 95 50 [?r1, ?r2]) = {?r1}"
    by blast
  with d show ?thesis by blast
qed






section \<open>Properties of cluster loading and of the summary\<close>

lemma store_members_apply:
  "store_members k c m name = (if name \<in> set c then Some k else m name)"
  unfolding store_members_def
  by (induction c arbitrary: m) auto

lemma store_clusters_notin:
  "\<forall>c \<in> set cs. name \<notin> set c \<Longrightarrow> store_clusters n cs m name = m name"
  by (induction cs arbitrary: n m) (auto simp: store_members_apply)

lemma store_clusters_in:
  "\<exists>c \<in> set cs. name \<in> set c \<Longrightarrow>
   \<exists>k. store_clusters n cs m name = Some (n + k) \<and> k < length cs \<and> name \<in> set (cs ! k) \<and>
       (\<forall>j < length cs. name \<in> set (cs ! j) \<longrightarrow> j \<le> k)"
proof (induction cs arbitrary: n m)
  case Nil
  then show ?case by simp
next
  case (Cons c cs)
  show ?case
  proof (cases "\<exists>c' \<in> set cs. name \<in> set c'")
    case True
    from Cons.IH [OF True, of "Suc n" "store_members n c m"]
    obtain k where k: "store_clusters (Suc n) cs (store_members n c m) name = Some (Suc n + k)"
      "k < length cs" "name \<in> set (cs ! k)"
      "\<forall>j < length cs. name \<in> set (cs ! j) \<longrightarrow> j \<le> k"
      by blast
    have "\<forall>j < length (c # cs). name \<in> set ((c # cs) ! j) \<longrightarrow> j \<le> Suc k"
    proof (intro allI impI)
      fix j assume "j < length (c # cs)" "name \<in> set ((c # cs) ! j)"
      then show "j \<le> Suc k" using k(4) by (cases j) auto
    qed
    with k show ?thesis
      by (intro exI [of _ "Suc k"]) simp
  next
    case False
    with Cons.prems have inc: "name \<in> set c" by auto
    from False have "store_clusters (Suc n) cs (store_members n c m) name = store_members n c m name"
      by (intro store_clusters_notin) blast
    then have r: "store_clusters n (c # cs) m name = Some n"
      using inc by (simp add: store_members_apply)
    have "\<forall>j < length (c # cs). name \<in> set ((c # cs) ! j) \<longrightarrow> j \<le> 0"
    proof (intro allI impI)
      fix j assume "j < length (c # cs)" "name \<in> set ((c # cs) ! j)"
      then show "j \<le> 0" using False by (cases j) auto
    qed
    with r inc show ?thesis
      by (intro exI [of _ 0]) simp
  qed
qed

lemma member2cluster_in:
  assumes "\<exists>c \<in> set cs. name \<in> set c"
  shows "\<exists>k. member2cluster cs name = Some k \<and> k < length cs \<and> name \<in> set (cs ! k) \<and>
       (\<forall>j < length cs. name \<in> set (cs ! j) \<longrightarrow> j \<le> k)"
  using store_clusters_in [OF assms, of 0 Map.empty] by (simp add: member2cluster_def)

lemma member2cluster_notin:
  "\<forall>c \<in> set cs. name \<notin> set c \<Longrightarrow> member2cluster cs name = None"
  by (simp add: member2cluster_def store_clusters_notin)

lemma member2cluster_Some:
  assumes "member2cluster cs name = Some k"
  shows "k < length cs \<and> name \<in> set (cs ! k) \<and> (\<forall>j < length cs. name \<in> set (cs ! j) \<longrightarrow> j \<le> k)"
proof -
  have "\<exists>c \<in> set cs. name \<in> set c"
    using assms member2cluster_notin [of cs name] by fastforce
  from member2cluster_in [OF this] assms show ?thesis by auto
qed

lemma iload_length: "c \<in> set (iload file n) \<Longrightarrow> n \<le> length c"
  by (simp add: iload_def)

lemma join_Ref_name_set:
  "j \<in> set (join_Ref_name m data) \<Longrightarrow> m (Ref_name j) = Some (Ref_cluster j)"
  by (auto simp: join_Ref_name_def List.map_filter_def)

lemma join_Query_name_set:
  "j \<in> set (join_Query_name m data) \<Longrightarrow>
     m (Query_name j) = Some (Query_cluster j) \<and>
     (\<exists>r \<in> set data. Ref_name r = Ref_name j \<and> Ref_cluster r = Ref_cluster j)"
  by (auto simp: join_Query_name_def List.map_filter_def)

lemma merge_cluster_ids_set:
  assumes "j \<in> set (merge_cluster_ids m data)"
  shows "m (Ref_name j) = Some (Ref_cluster j) \<and> m (Query_name j) = Some (Query_cluster j) \<and>
         Ref_cluster j = Query_cluster j"
proof -
  from assms have a: "j \<in> set (join_Query_name m (join_Ref_name m data))"
    and b: "Ref_cluster j = Query_cluster j"
    by (simp_all add: merge_cluster_ids_def)
  from join_Query_name_set [OF a] obtain r where
    q: "m (Query_name j) = Some (Query_cluster j)" and
    r: "r \<in> set (join_Ref_name m data)" "Ref_name r = Ref_name j" "Ref_cluster r = Ref_cluster j"
    by blast
  from join_Ref_name_set [OF r(1)] r(2,3) have "m (Ref_name j) = Some (Ref_cluster j)"
    by simp
  with q b show ?thesis by simp
qed




lemma groupby_Ref_cluster_set:
  "(k, g) \<in> set (groupby_Ref_cluster data) \<longleftrightarrow>
     k \<in> Ref_cluster ` set data \<and> g = filter (\<lambda>r. Ref_cluster r = k) data"
  by (auto simp: groupby_Ref_cluster_def)

lemma groupby_Ref_cluster_keys:
  "map fst (groupby_Ref_cluster data) = remdups (map Ref_cluster data)"
  by (simp add: groupby_Ref_cluster_def comp_def)

lemma average_set:
  "set (average_ANI_per_cluster data) =
     (\<lambda>k. \<lparr>cluster = k, avg_ANI = mean (map ANI (filter (\<lambda>r. Ref_cluster r = k) data))\<rparr>) `
       Ref_cluster ` set data"
  by (auto simp: average_ANI_per_cluster_def groupby_Ref_cluster_def image_iff)





lemma iload_set:
  "c \<in> set (iload file n) \<longleftrightarrow> n \<le> length c \<and> (\<exists>line \<in> set (file_lines file). c = parse_cluster line)"
  by (auto simp: iload_def)




text \<open>
  Claim C5. With the default minimum size 2, \<open>iload\<close> yields exactly the parsed lines of
  the clusters file that have at least two tab-separated members, in the order of the
  file; the number stored for a name is the position, among the yielded clusters, of a
  cluster that contains the name; and every cluster number in the summary is the
  position of a yielded cluster, which has at least two members.
\<close>

theorem cluster_ids_from_clusters_of_two:
  "(\<forall>c. c \<in> set (iload clusters_file 2) \<longleftrightarrow>
        2 \<le> length c \<and> (\<exists>line \<in> set (file_lines clusters_file). c = parse_cluster line))
   \<and> subseq (iload clusters_file 2) (map parse_cluster (file_lines clusters_file))
   \<and> (\<forall>name k. map_members_to_cluster_ids clusters_file 2 name = Some k \<longrightarrow>
        k < length (iload clusters_file 2) \<and> name \<in> set (iload clusters_file 2 ! k))
   \<and> (\<forall>s \<in> set (average_ANI_per_cluster (ClusterSummarizer_init ani_data clusters_file 2)).
        cluster s < length (iload clusters_file 2) \<and>
        2 \<le> length (iload clusters_file 2 ! cluster s))"
proof (intro conjI allI impI ballI)
  fix c
  show "c \<in> set (iload clusters_file 2) \<longleftrightarrow>
        2 \<le> length c \<and> (\<exists>line \<in> set (file_lines clusters_file). c = parse_cluster line)"
    by (rule iload_set)
next
  show "subseq (iload clusters_file 2) (map parse_cluster (file_lines clusters_file))"
    by (simp add: iload_def)
next
  fix name k
  assume "map_members_to_cluster_ids clusters_file 2 name = Some k"
  then have "member2cluster (iload clusters_file 2) name = Some k"
    by (simp add: map_members_to_cluster_ids_def)
  from member2cluster_Some [OF this]
  show "k < length (iload clusters_file 2)" "name \<in> set (iload clusters_file 2 ! k)"
    by simp_all
next
  fix s
  let ?m = "map_members_to_cluster_ids clusters_file 2"
  assume "s \<in> set (average_ANI_per_cluster (ClusterSummarizer_init ani_data clusters_file 2))"
  then obtain j where j: "j \<in> set (ClusterSummarizer_init ani_data clusters_file 2)"
    and c: "cluster s = Ref_cluster j"
    unfolding average_set by auto
  from j have "?m (Ref_name j) = Some (Ref_cluster j)"
    unfolding ClusterSummarizer_init_def using merge_cluster_ids_set by blast
  then have "member2cluster (iload clusters_file 2) (Ref_name j) = Some (cluster s)"
    by (simp add: map_members_to_cluster_ids_def c)
  from member2cluster_Some [OF this]
  show k: "cluster s < length (iload clusters_file 2)" by simp
  then have "iload clusters_file 2 ! cluster s \<in> set (iload clusters_file 2)"
    by (rule nth_mem)
  then show "2 \<le> length (iload clusters_file 2 ! cluster s)"
    by (rule iload_length)
qed

theorem cluster_ids_from_clusters_of_two_witness:
  "iload (''a'' @ [tab] @ ''b'' @ [newline] @ ''c'' @ [newline] @ ''d'' @ [tab] @ ''e'' @ [tab] @ [newline]) 2
     = [[''a'', ''b''], [''d'', ''e'']]
   \<and> map_members_to_cluster_ids
       (''a'' @ [tab] @ ''b'' @ [newline] @ ''c'' @ [newline] @ ''d'' @ [tab] @ ''e'' @ [tab] @ [newline]) 2 ''d''
     = Some 1
   \<and> map cluster (average_ANI_per_cluster (ClusterSummarizer_init
       [\<lparr>Ref_name = ''d'', Query_name = ''e'', ANI = 97\<rparr>,
        \<lparr>Ref_name = ''a'', Query_name = ''d'', ANI = 90\<rparr>,
        \<lparr>Ref_name = ''c'', Query_name = ''c'', ANI = 100\<rparr>]
       (''a'' @ [tab] @ ''b'' @ [newline] @ ''c'' @ [newline] @ ''d'' @ [tab] @ ''e'' @ [tab] @ [newline]) 2))
     = [1]
   \<and> (1::nat) < length [[''a'', ''b''], [''d'', ''e'']]
   \<and> 2 \<le> length ([[''a'', ''b''], [''d'', ''e'']] ! 1)"
proof -
  let ?f = "''a'' @ [tab] @ ''b'' @ [newline] @ ''c'' @ [newline] @ ''d'' @ [tab] @ ''e'' @ [tab] @ [newline]"
  let ?d = "[\<lparr>Ref_name = ''d'', Query_name = ''e'', ANI = 97\<rparr>,
        \<lparr>Ref_name = ''a'', Query_name = ''d'', ANI = 90\<rparr>,
        \<lparr>Ref_name = ''c'', Query_name = ''c'', ANI = 100\<rparr>]"
  have i: "iload ?f 2 = [[''a'', ''b''], [''d'', ''e'']]"
    by (simp add: iload_def parse_cluster_def rstrip_def isspace_def tab_def newline_def)
  have m: "map_members_to_cluster_ids ?f 2 =
      [''a'' \<mapsto> 0, ''b'' \<mapsto> 0, ''d'' \<mapsto> 1, ''e'' \<mapsto> 1]"
    unfolding map_members_to_cluster_ids_def i
    by (simp add: member2cluster_def store_members_def)
  have j: "ClusterSummarizer_init ?d ?f 2 =
      [\<lparr>Ref_name = ''d'', Query_name = ''e'', ANI = 97, Ref_cluster = 1, Query_cluster = 1\<rparr>]"
    unfolding ClusterSummarizer_init_def m
    by (simp add: merge_cluster_ids_def join_Ref_name_def join_Query_name_def)
  have s: "average_ANI_per_cluster (ClusterSummarizer_init ?d ?f 2) = [\<lparr>cluster = 1, avg_ANI = 97\<rparr>]"
    unfolding j
    by (simp add: average_ANI_per_cluster_def groupby_Ref_cluster_def mean_def)
  from cluster_ids_from_clusters_of_two [of ?f ?d] s i m
  show ?thesis by simp
qed

text \<open>
  Claim C6. A name that occurs in some yielded cluster is a key of the dictionary, with
  exactly one value; the value is the position of the last yielded cluster that contains
  the name. A name that occurs in no yielded cluster is not a key.
\<close>

theorem member_mapped_to_last_cluster:
  "((\<exists>c \<in> set (iload clusters_file n). name \<in> set c) \<longrightarrow>
      (\<exists>!k. map_members_to_cluster_ids clusters_file n name = Some k) \<and>
      (\<exists>k. map_members_to_cluster_ids clusters_file n name = Some k \<and>
           k < length (iload clusters_file n) \<and> name \<in> set (iload clusters_file n ! k) \<and>
           (\<forall>j < length (iload clusters_file n). name \<in> set (iload clusters_file n ! j) \<longrightarrow> j \<le> k)))
   \<and> ((\<forall>c \<in> set (iload clusters_file n). name \<notin> set c) \<longrightarrow>
      map_members_to_cluster_ids clusters_file n name = None)"
proof (intro conjI impI)
  assume a: "\<exists>c \<in> set (iload clusters_file n). name \<in> set c"
  from member2cluster_in [OF a]
  show "\<exists>k. map_members_to_cluster_ids clusters_file n name = Some k \<and>
           k < length (iload clusters_file n) \<and> name \<in> set (iload clusters_file n ! k) \<and>
           (\<forall>j < length (iload clusters_file n). name \<in> set (iload clusters_file n ! j) \<longrightarrow> j \<le> k)"
    by (simp add: map_members_to_cluster_ids_def)
  then show "\<exists>!k. map_members_to_cluster_ids clusters_file n name = Some k"
    by auto
next
  assume "\<forall>c \<in> set (iload clusters_file n). name \<notin> set c"
  then show "map_members_to_cluster_ids clusters_file n name = None"
    by (simp add: map_members_to_cluster_ids_def member2cluster_notin)
qed

theorem member_mapped_to_last_cluster_witness:
  "iload (''a'' @ [tab] @ ''b'' @ [newline] @ ''c'' @ [newline] @ ''b'' @ [tab] @ ''d'' @ [newline]) 2
     = [[''a'', ''b''], [''b'', ''d'']]
   \<and> map_members_to_cluster_ids
       (''a'' @ [tab] @ ''b'' @ [newline] @ ''c'' @ [newline] @ ''b'' @ [tab] @ ''d'' @ [newline]) 2 ''b''
     = Some 1
   \<and> map_members_to_cluster_ids
       (''a'' @ [tab] @ ''b'' @ [newline] @ ''c'' @ [newline] @ ''b'' @ [tab] @ ''d'' @ [newline]) 2 ''c''
     = None"
proof -
  let ?f = "''a'' @ [tab] @ ''b'' @ [newline] @ ''c'' @ [newline] @ ''b'' @ [tab] @ ''d'' @ [newline]"
  have i: "iload ?f 2 = [[''a'', ''b''], [''b'', ''d'']]"
    by (simp add: iload_def parse_cluster_def rstrip_def isspace_def tab_def newline_def)
  have b: "\<exists>c \<in> set (iload ?f 2). ''b'' \<in> set c"
    unfolding i by simp
  have c: "\<forall>c \<in> set (iload ?f 2). ''c'' \<notin> set c"
    unfolding i by simp
  from member_mapped_to_last_cluster [of ?f 2 "''b''"] b
  obtain k where k: "map_members_to_cluster_ids ?f 2 ''b'' = Some k"
    "k < length (iload ?f 2)" "\<forall>j < length (iload ?f 2). ''b'' \<in> set (iload ?f 2 ! j) \<longrightarrow> j \<le> k"
    by blast
  from k(3) [unfolded i] have "1 \<le> k" by simp
  with k(2) [unfolded i] have "k = 1" by simp
  with k(1) have "map_members_to_cluster_ids ?f 2 ''b'' = Some 1" by simp
  moreover from member_mapped_to_last_cluster [of ?f 2 "''c''"] c
  have "map_members_to_cluster_ids ?f 2 ''c'' = None" by blast
  ultimately show ?thesis using i by blast
qed

section \<open>Properties of the concatenation of result files\<close>




lemma readline_append: "fst (readline s) @ snd (readline s) = s"
  by (induction s) (auto split: prod.splits)





lemma terminated_concat:
  "\<forall>g \<in> set gs. g = [] \<or> last g = newline \<Longrightarrow> concat gs = [] \<or> last (concat gs) = newline"
  by (induction gs) (auto simp: last_append)




lemma result_paths_distinct:
  "distinct (map (abspath E) (map (joinpath dir)
     [''vMAGs-vMAGs_skani_ANI.tsv'', ''unbinned-unbinned_skani_ANI.tsv'',
      ''unbinned-vMAGs_skani_ANI.tsv'']))"
  by (cases dir) (simp_all add: abspath_def joinpath_def)



section \<open>Properties of the double-precision product\<close>

lemma round_half_even_cases:
  "round_half_even m = \<lfloor>m\<rfloor> \<and> m - of_int \<lfloor>m\<rfloor> \<le> 1 / 2 \<or>
   round_half_even m = \<lfloor>m\<rfloor> + 1 \<and> 1 / 2 \<le> m - of_int \<lfloor>m\<rfloor>"
  by (simp add: round_half_even_def Let_def)

lemma round_half_even_error: "\<bar>of_int (round_half_even m) - m\<bar> \<le> 1 / 2"
proof -
  have "of_int \<lfloor>m\<rfloor> \<le> m" "m < of_int \<lfloor>m\<rfloor> + 1" by linarith+
  with round_half_even_cases [of m] show ?thesis by auto
qed

lemma round_half_even_of_int: "round_half_even (of_int k) = k"
  by (simp add: round_half_even_def)

lemma round_half_even_nonneg: "0 \<le> m \<Longrightarrow> 0 \<le> round_half_even m"
proof -
  assume "0 \<le> m"
  then have "0 \<le> \<lfloor>m\<rfloor>" by simp
  with round_half_even_cases [of m] show ?thesis by auto
qed

lemma round_half_even_le: "m \<le> of_int N \<Longrightarrow> round_half_even m \<le> N"
proof -
  assume a: "m \<le> of_int N"
  then have f: "\<lfloor>m\<rfloor> \<le> N" by (simp add: floor_le_iff)
  from round_half_even_cases [of m] show ?thesis
  proof
    assume "round_half_even m = \<lfloor>m\<rfloor> \<and> m - of_int \<lfloor>m\<rfloor> \<le> 1 / 2"
    with f show ?thesis by simp
  next
    assume b: "round_half_even m = \<lfloor>m\<rfloor> + 1 \<and> 1 / 2 \<le> m - of_int \<lfloor>m\<rfloor>"
    then have "of_int \<lfloor>m\<rfloor> < m" by simp
    with a have "(of_int \<lfloor>m\<rfloor> :: real) < of_int N" by simp
    then have "\<lfloor>m\<rfloor> < N" by simp
    with b show ?thesis by simp
  qed
qed

lemma exp_above_le: "2 powi e \<le> x \<Longrightarrow> 2 powi (exp_above n e x) \<le> x"
  by (induction n arbitrary: e) auto

lemma exp_below_le: "exp_below n e x \<le> e"
proof (induction n arbitrary: e)
  case 0
  then show ?case by simp
next
  case (Suc n)
  from Suc [of "e - 1"] show ?case by simp
qed

lemma exponent_le_arg: "1 \<le> x \<Longrightarrow> 2 powi (exponent x) \<le> x"
  by (simp add: exponent_def exp_above_le)

lemma exponent_nonpos: "x < 1 \<Longrightarrow> exponent x \<le> 0"
  by (simp add: exponent_def exp_below_le)

lemma ulp_pos: "0 < ulp x"
  by (simp add: ulp_def)

lemma ulp_le: "ulp x \<le> max x 1 / 2 ^ 52"
proof (cases "1 \<le> x")
  case True
  have "ulp x = 2 powi (exponent x) / 2 ^ 52"
    by (simp add: ulp_def power_int_diff)
  also have "\<dots> \<le> x / 2 ^ 52"
    using exponent_le_arg [OF True] by (simp add: divide_right_mono)
  finally show ?thesis using True by (simp add: max_def)
next
  case False
  then have "exponent x - 52 \<le> - 52" using exponent_nonpos [of x] by simp
  then have "(2::real) powi (exponent x - 52) \<le> 2 powi (- 52)"
    by (rule power_int_increasing) simp
  also have "(2::real) powi (- 52) = 1 / 2 ^ 52"
    by (simp add: power_int_minus field_simps)
  finally show ?thesis using False by (simp add: ulp_def max_def)
qed

lemma exponent_le_6: "x \<le> 100 \<Longrightarrow> exponent x \<le> 6"
proof (cases "1 \<le> x")
  case True
  assume "x \<le> 100"
  with exponent_le_arg [OF True] have "(2::real) powi (exponent x) < 2 powi 7"
    by simp
  then have "exponent x < 7"
    by (rule power_int_le_imp_less_exp [rotated]) simp_all
  then show ?thesis by simp
next
  case False
  with exponent_nonpos [of x] show ?thesis by simp
qed

lemma double_round_pos:
  "0 < x \<Longrightarrow> double_round x = of_int (round_half_even (x / ulp x)) * ulp x"
  by (simp add: double_round_def)

lemma double_round_error:
  assumes "0 < x"
  shows "\<bar>double_round x - x\<bar> \<le> ulp x / 2"
proof -
  let ?q = "round_half_even (x / ulp x)"
  have u: "0 < ulp x" by (rule ulp_pos)
  have "double_round x - x = (of_int ?q - x / ulp x) * ulp x"
    using u by (simp add: double_round_pos [OF assms] field_simps)
  then have "\<bar>double_round x - x\<bar> = \<bar>of_int ?q - x / ulp x\<bar> * ulp x"
    using u by (simp add: abs_mult)
  also have "\<dots> \<le> 1 / 2 * ulp x"
    using round_half_even_error [of "x / ulp x"] u by (intro mult_right_mono) simp_all
  finally show ?thesis by simp
qed

lemma double_round_exact:
  assumes "0 \<le> x" "x = of_int k * ulp x"
  shows "double_round x = x"
proof (cases "x = 0")
  case True
  then show ?thesis by (simp add: double_round_def)
next
  case False
  with assms(1) have p: "0 < x" by simp
  have "x / ulp x = of_int k"
    using assms(2) ulp_pos [of x] by (simp add: field_simps)
  then show ?thesis
    using assms(2) by (simp add: double_round_pos [OF p] round_half_even_of_int)
qed

lemma double_round_nonneg: "0 \<le> x \<Longrightarrow> 0 \<le> double_round x"
proof (cases "x = 0")
  case True
  then show ?thesis by (simp add: double_round_def)
next
  case False
  assume "0 \<le> x"
  with False have p: "0 < x" by simp
  then have "0 \<le> x / ulp x" using ulp_pos [of x] by simp
  then have "0 \<le> round_half_even (x / ulp x)" by (rule round_half_even_nonneg)
  then show ?thesis
    using ulp_pos [of x] by (simp add: double_round_pos [OF p])
qed

lemma double_round_le_100:
  assumes "0 \<le> x" "x \<le> 100"
  shows "double_round x \<le> 100"
proof (cases "x = 0")
  case True
  then show ?thesis by (simp add: double_round_def)
next
  case False
  with assms(1) have p: "0 < x" by simp
  let ?e = "exponent x"
  let ?N = "100 * 2 ^ nat (52 - ?e) :: int"
  have e: "?e \<le> 52" using exponent_le_6 [OF assms(2)] by simp
  have u: "0 < ulp x" by (rule ulp_pos)
  have "(2::real) powi (52 - ?e) = 2 ^ nat (52 - ?e)"
    using e by (simp add: power_int_def)
  moreover have "(2::real) powi (52 - ?e) * ulp x = 1"
    unfolding ulp_def by (simp flip: power_int_add)
  ultimately have N: "of_int ?N * ulp x = 100"
    by simp
  then have "x / ulp x \<le> of_int ?N"
    using assms(2) u by (simp add: field_simps)
  then have "round_half_even (x / ulp x) \<le> ?N" by (rule round_half_even_le)
  then have "(of_int (round_half_even (x / ulp x)) :: real) \<le> of_int ?N"
    by (simp only: of_int_le_iff)
  then have "of_int (round_half_even (x / ulp x)) * ulp x \<le> of_int ?N * ulp x"
    using u by (intro mult_right_mono) (assumption, simp)
  then show ?thesis by (simp only: double_round_pos [OF p] N)
qed

lemma double_mul_100:
  assumes "0 \<le> t" "t \<le> 1"
  shows "0 \<le> double_mul t 100 \<and> double_mul t 100 \<le> 100 \<and>
         \<bar>double_mul t 100 - 100 * t\<bar> \<le> max (100 * t) 1 / 2 ^ 53 \<and>
         (\<forall>k::int. 100 * t = of_int k * ulp (100 * t) \<longrightarrow> double_mul t 100 = 100 * t)"
proof -
  let ?x = "100 * t"
  have m: "double_mul t 100 = double_round ?x"
    by (simp add: double_mul_def mult.commute)
  have x: "0 \<le> ?x" "?x \<le> 100" using assms by simp_all
  have err: "\<bar>double_round ?x - ?x\<bar> \<le> max ?x 1 / 2 ^ 53"
  proof (cases "?x = 0")
    case True
    then show ?thesis by (simp add: double_round_def)
  next
    case False
    with x(1) have "0 < ?x" by simp
    then have "\<bar>double_round ?x - ?x\<bar> \<le> ulp ?x / 2" by (rule double_round_error)
    also have "\<dots> \<le> (max ?x 1 / 2 ^ 52) / 2"
      using ulp_le [of ?x] by simp
    finally show ?thesis by simp
  qed
  have "\<forall>k::int. ?x = of_int k * ulp ?x \<longrightarrow> double_round ?x = ?x"
    using double_round_exact [OF x(1)] by blast
  with err double_round_nonneg [OF x(1)] double_round_le_100 [OF x] show ?thesis
    unfolding m by blast
qed

lemma double_mul_100_values:
  "double_mul (4278419646001971 / 4503599627370496) 100 = 95"
  "double_mul (1 / 2) 100 = 50"
  "double_mul 1 100 = 100"
  "double_mul 0 100 = 0"
  "double_mul (2476979795053773 / 4503599627370496) 100 = 7740561859543041 / 140737488355328"
  by code_simp+

section \<open>Properties of argument parsing and of the pipeline\<close>

lemma check_range_valrange:
  "check_range v valrange name = (if 0 \<le> v \<and> v \<le> 1 then Inr () else Inl (ValueError name))"
  by (simp add: check_range_def valrange_def)

lemma PreprocessingArgs_init_cases:
  "PreprocessingArgs_init a c =
     (if \<not> (0 \<le> a \<and> a \<le> 1) then Inl (ValueError ''--min-ani'')
      else if \<not> (0 \<le> c \<and> c \<le> 1) then Inl (ValueError ''--min-cov'')
      else Inr \<lparr>min_ani = double_mul a 100, min_cov = double_mul c 100\<rparr>)"
  by (simp add: PreprocessingArgs_init_def check_range_valrange)

lemma skani_parse_rejects:
  assumes "\<not> (0 \<le> ns_min_ani ns \<and> ns_min_ani ns \<le> 1 \<and> 0 \<le> ns_min_cov ns \<and> ns_min_cov ns \<le> 1)"
  shows "skani_parse ns =
     Inl (ValueError (if 0 \<le> ns_min_ani ns \<and> ns_min_ani ns \<le> 1 then ''--min-cov'' else ''--min-ani''))"
  using assms by (auto simp: skani_parse_def Let_def and_then_def PreprocessingArgs_init_cases)

lemma skani_parse_accepts:
  assumes "0 \<le> ns_min_ani ns \<and> ns_min_ani ns \<le> 1 \<and> 0 \<le> ns_min_cov ns \<and> ns_min_cov ns \<le> 1"
    and "ns_contigs ns \<noteq> None \<or> ns_vmag_dir ns \<noteq> None"
  shows "\<exists>a. skani_parse ns = Inr a \<and>
     preprocessing a = \<lparr>min_ani = double_mul (ns_min_ani ns) 100,
                        min_cov = double_mul (ns_min_cov ns) 100\<rparr> \<and>
     skani_output (io a) = ns_output ns \<and> processed_output (io a) = ns_output_processed ns"
  using assms
  by (auto simp: skani_parse_def Let_def and_then_def PreprocessingArgs_init_cases VSkaniArgs_init_def)

lemma main_parse_error:
  "parse_args ap_args = Inl e \<Longrightarrow> main E ap_args w = (Inl e, w)"
  by (simp add: main_def then_run_def lift_def)

lemma parse_args_Ns_all_error:
  "skani_parse ns = Inl e \<Longrightarrow> parse_args (Ns_all ns) = Inl e"
  by (simp add: parse_args_def skani_parse_args_def and_then_def)

lemma parse_args_Ns_skani_error:
  "skani_parse ns = Inl e \<Longrightarrow> parse_args (Ns_skani ns) = Inl e"
  by (simp add: parse_args_def skani_parse_args_def and_then_def)

lemma preprocess_py_parse_args_cases:
  "preprocess_py_parse_args i out t a c =
     (if \<not> (0 \<le> a \<and> a \<le> 1) then Inl (ValueError ''--min-ani'')
      else if \<not> (0 \<le> c \<and> c \<le> 1) then Inl (ValueError ''--min-cov'')
      else Inr \<lparr>py_input = i, py_output = out, py_threads = t,
                py_min_ani = double_mul a 100, py_min_cov = double_mul c 100\<rparr>)"
  by (simp add: preprocess_py_parse_args_def preprocess_py_check_range_def and_then_def)

lemma skani_missing_fails_at_startup:
  assumes "parse_args (Ns_all ns) = Inr args" "\<not> which E ''skani''"
  shows "main E (Ns_all ns) w = (Inl (RuntimeError ''Cannot find path to skani''), w)"
proof -
  from assms(1) obtain a where a: "skani_parse ns = Inr a" and
    args: "args_skani args = Some a" "args_command args = Some Cmd_all"
    by (auto simp: parse_args_def skani_parse_args_def and_then_def command_of_def
        split: sum.splits)
  from a have "contigs (io a) \<noteq> None \<or> vmag_dir (io a) \<noteq> None"
    by (auto simp: skani_parse_def Let_def and_then_def VSkaniArgs_init_def
        split: sum.splits if_splits)
  then have "run_skani E a w = (Inl (RuntimeError ''Cannot find path to skani''), w)"
    using assms(2) by (auto simp: run_skani_def vskani_main_def then_run_def raise_def)
  then show ?thesis
    using assms(1) args
    by (simp add: main_def run_command_def then_run_def lift_def attr_def ret_def)
qed

text \<open>
  Claim C8. \<open>check_range\<close> with the range \<open>[0, 1]\<close> raises \<open>ValueError\<close> exactly for the values
  outside the range. When the value of \<open>--min-ani\<close> or of \<open>--min-cov\<close> is outside the range,
  \<open>main\<close> under the subcommand \<open>all\<close> and under the subcommand \<open>skani\<close> ends with that error
  and leaves the files and the list of executed commands as they were. When both values
  are inside the range, the thresholds are constructed and argument parsing raises no
  \<open>ValueError\<close>.
\<close>

theorem threshold_outside_unit_range_rejected:
  "(check_range v valrange name = Inl (ValueError name) \<longleftrightarrow> \<not> (0 \<le> v \<and> v \<le> 1))
   \<and> (check_range v valrange name = Inr () \<longleftrightarrow> 0 \<le> v \<and> v \<le> 1)
   \<and> (\<not> (0 \<le> ns_min_ani ns \<and> ns_min_ani ns \<le> 1 \<and> 0 \<le> ns_min_cov ns \<and> ns_min_cov ns \<le> 1) \<longrightarrow>
        (\<exists>opt. main E (Ns_all ns) w = (Inl (ValueError opt), w)))
   \<and> (\<not> (0 \<le> ns_min_ani sn \<and> ns_min_ani sn \<le> 1 \<and> 0 \<le> ns_min_cov sn \<and> ns_min_cov sn \<le> 1) \<longrightarrow>
        (\<exists>opt. main E (Ns_skani sn) w = (Inl (ValueError opt), w)))
   \<and> (0 \<le> ns_min_ani ns \<and> ns_min_ani ns \<le> 1 \<and> 0 \<le> ns_min_cov ns \<and> ns_min_cov ns \<le> 1 \<longrightarrow>
        (\<exists>p. PreprocessingArgs_init (ns_min_ani ns) (ns_min_cov ns) = Inr p) \<and>
        (\<forall>opt. parse_args (Ns_all ns) \<noteq> Inl (ValueError opt)))"
proof (intro conjI impI)
  assume "\<not> (0 \<le> ns_min_ani ns \<and> ns_min_ani ns \<le> 1 \<and> 0 \<le> ns_min_cov ns \<and> ns_min_cov ns \<le> 1)"
  from skani_parse_rejects [OF this]
  show "\<exists>opt. main E (Ns_all ns) w = (Inl (ValueError opt), w)"
    using main_parse_error parse_args_Ns_all_error by blast
next
  assume "\<not> (0 \<le> ns_min_ani sn \<and> ns_min_ani sn \<le> 1 \<and> 0 \<le> ns_min_cov sn \<and> ns_min_cov sn \<le> 1)"
  from skani_parse_rejects [OF this]
  show "\<exists>opt. main E (Ns_skani sn) w = (Inl (ValueError opt), w)"
    using main_parse_error parse_args_Ns_skani_error by blast
next
  assume r: "0 \<le> ns_min_ani ns \<and> ns_min_ani ns \<le> 1 \<and> 0 \<le> ns_min_cov ns \<and> ns_min_cov ns \<le> 1"
  then show "\<exists>p. PreprocessingArgs_init (ns_min_ani ns) (ns_min_cov ns) = Inr p"
    by (simp add: PreprocessingArgs_init_cases)
  from r show "\<forall>opt. parse_args (Ns_all ns) \<noteq> Inl (ValueError opt)"
    by (auto simp: parse_args_def skani_parse_args_def skani_parse_def Let_def and_then_def
        PreprocessingArgs_init_cases VSkaniArgs_init_def)
qed (auto simp: check_range_valrange)

theorem threshold_outside_unit_range_rejected_witness:
  "main example_env (Ns_all (example_namespace\<lparr>ns_min_ani := 95\<rparr>)) empty_world =
     (Inl (ValueError ''--min-ani''), empty_world)
   \<and> PreprocessingArgs_init (ns_min_ani example_namespace) (ns_min_cov example_namespace) =
     Inr \<lparr>min_ani = 95, min_cov = 50\<rparr>"
proof -
  let ?ns = "example_namespace\<lparr>ns_min_ani := 95\<rparr>"
  have bad: "\<not> (0 \<le> ns_min_ani ?ns \<and> ns_min_ani ?ns \<le> 1 \<and> 0 \<le> ns_min_cov ?ns \<and> ns_min_cov ?ns \<le> 1)"
    by simp
  from threshold_outside_unit_range_rejected [of _ _ ?ns example_env empty_world] bad
  obtain opt where opt: "main example_env (Ns_all ?ns) empty_world = (Inl (ValueError opt), empty_world)"
    by blast
  have "parse_args (Ns_all ?ns) = Inl (ValueError ''--min-ani'')"
    by (simp add: parse_args_Ns_all_error skani_parse_rejects)
  then have "main example_env (Ns_all ?ns) empty_world = (Inl (ValueError ''--min-ani''), empty_world)"
    by (rule main_parse_error)
  with opt have o: "opt = ''--min-ani''" by simp
  have good: "0 \<le> ns_min_ani example_namespace \<and> ns_min_ani example_namespace \<le> 1 \<and>
      0 \<le> ns_min_cov example_namespace \<and> ns_min_cov example_namespace \<le> 1"
    by (simp add: example_namespace_def)
  from threshold_outside_unit_range_rejected [of _ _ example_namespace] good
  obtain p where p: "PreprocessingArgs_init (ns_min_ani example_namespace) (ns_min_cov example_namespace) = Inr p"
    by blast
  have v: "ns_min_ani example_namespace = 4278419646001971 / 4503599627370496"
    "ns_min_cov example_namespace = 1 / 2"
    by (simp_all add: example_namespace_def)
  from p good have "p = \<lparr>min_ani = 95, min_cov = 50\<rparr>"
    unfolding PreprocessingArgs_init_cases v double_mul_100_values by (simp split: if_splits)
  with p opt o show ?thesis by simp
qed

text \<open>
  Claim C10, as the code has it. For values of \<open>--min-ani\<close> and \<open>--min-cov\<close> in \<open>[0, 1]\<close>,
  bounds included, the stored threshold is the double-precision product of the value
  and \<open>100.0\<close>, in the argument class of the package and in the standalone script: one
  hundred times the value rounded to the nearest double. It lies in \<open>[0, 100]\<close>, it
  differs from one hundred times the value by at most \<open>max(100 t, 1) / 2 ^ 53\<close>, and it is
  one hundred times the value whenever that number is a double of its exponent. The
  preprocessing step of \<open>main\<close> filters the similarity table with the stored thresholds.
\<close>

theorem stored_threshold_is_double_product:
  assumes "0 \<le> ns_min_ani ns \<and> ns_min_ani ns \<le> 1 \<and> 0 \<le> ns_min_cov ns \<and> ns_min_cov ns \<le> 1"
  shows "PreprocessingArgs_init (ns_min_ani ns) (ns_min_cov ns) =
           Inr \<lparr>min_ani = double_mul (ns_min_ani ns) 100, min_cov = double_mul (ns_min_cov ns) 100\<rparr>
    \<and> preprocess_py_parse_args i out t (ns_min_ani ns) (ns_min_cov ns) =
           Inr \<lparr>py_input = i, py_output = out, py_threads = t,
                py_min_ani = double_mul (ns_min_ani ns) 100,
                py_min_cov = double_mul (ns_min_cov ns) 100\<rparr>
    \<and> 0 \<le> double_mul (ns_min_ani ns) 100 \<and> double_mul (ns_min_ani ns) 100 \<le> 100
    \<and> \<bar>double_mul (ns_min_ani ns) 100 - 100 * ns_min_ani ns\<bar> \<le> max (100 * ns_min_ani ns) 1 / 2 ^ 53
    \<and> (\<forall>k::int. 100 * ns_min_ani ns = of_int k * ulp (100 * ns_min_ani ns) \<longrightarrow>
          double_mul (ns_min_ani ns) 100 = 100 * ns_min_ani ns)
    \<and> 0 \<le> double_mul (ns_min_cov ns) 100 \<and> double_mul (ns_min_cov ns) 100 \<le> 100
    \<and> \<bar>double_mul (ns_min_cov ns) 100 - 100 * ns_min_cov ns\<bar> \<le> max (100 * ns_min_cov ns) 1 / 2 ^ 53
    \<and> (\<forall>k::int. 100 * ns_min_cov ns = of_int k * ulp (100 * ns_min_cov ns) \<longrightarrow>
          double_mul (ns_min_cov ns) 100 = 100 * ns_min_cov ns)
    \<and> (\<forall>a. skani_parse ns = Inr a \<longrightarrow>
          preprocessing a = \<lparr>min_ani = double_mul (ns_min_ani ns) 100,
                             min_cov = double_mul (ns_min_cov ns) 100\<rparr> \<and>
          run_skani E a =
            then_run
              (vskani_main E (ns_contigs ns) (ns_vmag_dir ns) (ns_output ns) (ns_outdir ns)
                 (ns_ext ns) (ns_compression_factor ns) (ns_marker ns) (ns_screen ns)
                 (ns_min_af ns) (ns_threads ns)) (\<lambda>_.
            then_run (SkaniPreprocessor_init E (ns_output ns)) (\<lambda>preprocessor.
            then_run (lift (skani_rows E preprocessor)) (\<lambda>data.
            SkaniPreprocessor_save E (ns_output_processed ns)
              (SkaniPreprocessor_create_edge_weights
                 (SkaniPreprocessor_preprocess (double_mul (ns_min_ani ns) 100)
                    (double_mul (ns_min_cov ns) 100) data))))))"
proof -
  have ra: "0 \<le> ns_min_ani ns" "ns_min_ani ns \<le> 1" and rc: "0 \<le> ns_min_cov ns" "ns_min_cov ns \<le> 1"
    using assms by simp_all
  have 1: "PreprocessingArgs_init (ns_min_ani ns) (ns_min_cov ns) =
           Inr \<lparr>min_ani = double_mul (ns_min_ani ns) 100, min_cov = double_mul (ns_min_cov ns) 100\<rparr>"
    using assms by (simp add: PreprocessingArgs_init_cases)
  have 2: "preprocess_py_parse_args i out t (ns_min_ani ns) (ns_min_cov ns) =
           Inr \<lparr>py_input = i, py_output = out, py_threads = t,
                py_min_ani = double_mul (ns_min_ani ns) 100,
                py_min_cov = double_mul (ns_min_cov ns) 100\<rparr>"
    using assms by (simp add: preprocess_py_parse_args_cases)
  have 3: "\<forall>a. skani_parse ns = Inr a \<longrightarrow>
          preprocessing a = \<lparr>min_ani = double_mul (ns_min_ani ns) 100,
                             min_cov = double_mul (ns_min_cov ns) 100\<rparr> \<and>
          run_skani E a =
            then_run
              (vskani_main E (ns_contigs ns) (ns_vmag_dir ns) (ns_output ns) (ns_outdir ns)
                 (ns_ext ns) (ns_compression_factor ns) (ns_marker ns) (ns_screen ns)
                 (ns_min_af ns) (ns_threads ns)) (\<lambda>_.
            then_run (SkaniPreprocessor_init E (ns_output ns)) (\<lambda>preprocessor.
            then_run (lift (skani_rows E preprocessor)) (\<lambda>data.
            SkaniPreprocessor_save E (ns_output_processed ns)
              (SkaniPreprocessor_create_edge_weights
                 (SkaniPreprocessor_preprocess (double_mul (ns_min_ani ns) 100)
                    (double_mul (ns_min_cov ns) 100) data)))))"
  proof (intro allI impI)
    fix a
    assume "skani_parse ns = Inr a"
    then have a: "a = \<lparr>io = \<lparr>contigs = ns_contigs ns, vmag_dir = ns_vmag_dir ns,
                     outdir = ns_outdir ns, skani_output = ns_output ns,
                     processed_output = ns_output_processed ns, ext = ns_ext ns\<rparr>,
      skani_args = \<lparr>compression_factor = ns_compression_factor ns,
                        marker = ns_marker ns, screen = ns_screen ns, min_af = ns_min_af ns\<rparr>,
      logger = \<lparr>command_log = joinpath (ns_outdir ns) (ns_command_log ns),
                      log_file = joinpath (ns_outdir ns) (ns_log ns)\<rparr>,
      preprocessing = \<lparr>min_ani = double_mul (ns_min_ani ns) 100,
                       min_cov = double_mul (ns_min_cov ns) 100\<rparr>,
      threads = ns_threads ns\<rparr>"
      using assms
      by (auto simp: skani_parse_def Let_def and_then_def PreprocessingArgs_init_cases
          VSkaniArgs_init_def split: if_splits)
    show "preprocessing a = \<lparr>min_ani = double_mul (ns_min_ani ns) 100,
                             min_cov = double_mul (ns_min_cov ns) 100\<rparr> \<and>
          run_skani E a =
            then_run
              (vskani_main E (ns_contigs ns) (ns_vmag_dir ns) (ns_output ns) (ns_outdir ns)
                 (ns_ext ns) (ns_compression_factor ns) (ns_marker ns) (ns_screen ns)
                 (ns_min_af ns) (ns_threads ns)) (\<lambda>_.
            then_run (SkaniPreprocessor_init E (ns_output ns)) (\<lambda>preprocessor.
            then_run (lift (skani_rows E preprocessor)) (\<lambda>data.
            SkaniPreprocessor_save E (ns_output_processed ns)
              (SkaniPreprocessor_create_edge_weights
                 (SkaniPreprocessor_preprocess (double_mul (ns_min_ani ns) 100)
                    (double_mul (ns_min_cov ns) 100) data)))))"
      by (simp add: a run_skani_def SkaniPreprocessor_process_and_save_def
          SkaniPreprocessor_process_def)
  qed
  from 1 2 3 double_mul_100 [OF ra] double_mul_100 [OF rc] show ?thesis
    by blast
qed

theorem stored_threshold_is_double_product_witness:
  "PreprocessingArgs_init (ns_min_ani example_namespace) (ns_min_cov example_namespace) =
     Inr \<lparr>min_ani = 95, min_cov = 50\<rparr>
   \<and> \<bar>95 - 100 * ns_min_ani example_namespace\<bar> \<le> max (100 * ns_min_ani example_namespace) 1 / 2 ^ 53
   \<and> PreprocessingArgs_init (ns_min_ani (example_namespace\<lparr>ns_min_ani := 1, ns_min_cov := 0\<rparr>))
       (ns_min_cov (example_namespace\<lparr>ns_min_ani := 1, ns_min_cov := 0\<rparr>)) =
     Inr \<lparr>min_ani = 100, min_cov = 0\<rparr>"
proof -
  have good: "0 \<le> ns_min_ani example_namespace \<and> ns_min_ani example_namespace \<le> 1 \<and>
      0 \<le> ns_min_cov example_namespace \<and> ns_min_cov example_namespace \<le> 1"
    by (simp add: example_namespace_def)
  have v: "ns_min_ani example_namespace = 4278419646001971 / 4503599627370496"
    "ns_min_cov example_namespace = 1 / 2"
    by (simp_all add: example_namespace_def)
  let ?edge = "example_namespace\<lparr>ns_min_ani := 1, ns_min_cov := 0\<rparr>"
  have edge: "0 \<le> ns_min_ani ?edge \<and> ns_min_ani ?edge \<le> 1 \<and>
      0 \<le> ns_min_cov ?edge \<and> ns_min_cov ?edge \<le> 1"
    by simp
  have w: "ns_min_ani ?edge = 1" "ns_min_cov ?edge = 0"
    by simp_all
  note t = stored_threshold_is_double_product [OF good, of "[]" "[]" 0 example_env]
  from t have 1: "PreprocessingArgs_init (ns_min_ani example_namespace) (ns_min_cov example_namespace) =
      Inr \<lparr>min_ani = 95, min_cov = 50\<rparr>"
    unfolding v double_mul_100_values by blast
  from t have 2: "\<bar>95 - 100 * ns_min_ani example_namespace\<bar> \<le>
      max (100 * ns_min_ani example_namespace) 1 / 2 ^ 53"
    unfolding v double_mul_100_values by blast
  note u = stored_threshold_is_double_product [OF edge, of "[]" "[]" 0 example_env]
  from u have 3: "PreprocessingArgs_init (ns_min_ani ?edge) (ns_min_cov ?edge) =
      Inr \<lparr>min_ani = 100, min_cov = 0\<rparr>"
    unfolding w double_mul_100_values by blast
  from 1 2 3 show ?thesis by blast
qed

text \<open>
  The claim C10 as it was stated, the stored threshold being one hundred times the value,
  fails at the double that \<open>0.55\<close> denotes: the stored threshold is the double printed as
  \<open>55.00000000000001\<close>.
\<close>

theorem stored_threshold_not_hundredfold_counterexample:
  "0 \<le> (2476979795053773 / 4503599627370496 :: real)
   \<and> (2476979795053773 / 4503599627370496 :: real) \<le> 1
   \<and> PreprocessingArgs_init (2476979795053773 / 4503599627370496) (1 / 2) =
       Inr \<lparr>min_ani = 7740561859543041 / 140737488355328, min_cov = 50\<rparr>
   \<and> PreprocessingArgs_init (2476979795053773 / 4503599627370496) (1 / 2) \<noteq>
       Inr \<lparr>min_ani = 100 * (2476979795053773 / 4503599627370496), min_cov = 100 * (1 / 2)\<rparr>"
proof -
  have "PreprocessingArgs_init (2476979795053773 / 4503599627370496) (1 / 2) =
       Inr \<lparr>min_ani = 7740561859543041 / 140737488355328, min_cov = 50\<rparr>"
    unfolding PreprocessingArgs_init_cases double_mul_100_values by simp
  then show ?thesis by simp
qed

text \<open>
  Claim C3, on a run of the full pipeline. The summariser is constructed on the path of
  the processed output, the edge list without header line that \<open>save\<close> wrote: its first
  edge is read as the column names, the join on \<open>Ref_name\<close> raises, and no summary is
  written. The parsed arguments of the summary name the output of the similarity stage,
  and the subcommand \<open>summarize\<close> on that table and the same clusters writes the summary.
\<close>

theorem full_pipeline_summarizer_reads_edge_list:
  "fst (main example_env (Ns_all example_namespace) empty_world) =
     Inl (ColumnNotFoundError ''Ref_name'')
   \<and> files (snd (main example_env (Ns_all example_namespace) empty_world)) ''/w/skani_processed.tsv'' =
     Some (''g1'' @ [tab] @ ''g2'' @ [tab] @ ''0.792'' @ [newline])
   \<and> files (snd (main example_env (Ns_all example_namespace) empty_world)) ''/w/ani_per_cluster.tsv'' =
     None
   \<and> map_option skani_input (summary_parse_args (Ns_all example_namespace)) = Some ''skani_ANI.tsv''
   \<and> fst (main example_env
        (Ns_summarize \<lparr>sum_ns_input = ''skani_ANI.tsv'', sum_ns_threads = 15,
           sum_ns_mcl_output = ''dereplicated_virus.clusters'', sum_ns_output = ''ani_per_cluster.tsv''\<rparr>)
        (snd (main example_env (Ns_all example_namespace) empty_world))) = Inr ()
   \<and> files (snd (main example_env
        (Ns_summarize \<lparr>sum_ns_input = ''skani_ANI.tsv'', sum_ns_threads = 15,
           sum_ns_mcl_output = ''dereplicated_virus.clusters'', sum_ns_output = ''ani_per_cluster.tsv''\<rparr>)
        (snd (main example_env (Ns_all example_namespace) empty_world)))) ''/w/ani_per_cluster.tsv'' =
     Some (''cluster'' @ [tab] @ ''avg_ANI'' @ [newline] @ ''0'' @ [tab] @ ''99.5'' @ [newline])"
  by code_simp

text \<open>
  Claim C9, on a run of the full pipeline with the similarity tool on the execution path
  and the clustering tool's programs missing from it. The run fails with
  \<open>FileNotFoundError\<close>, raised by the call of the first clustering program, after the
  similarity command has been executed and the processed output written. With the
  similarity tool missing instead, the run fails before anything is executed.
\<close>

theorem missing_clustering_tool_fails_after_similarity_ran:
  "fst (main (example_env\<lparr>on_path := [''skani'']\<rparr>) (Ns_all example_namespace) empty_world) =
     Inl FileNotFoundError
   \<and> executed (snd (main (example_env\<lparr>on_path := [''skani'']\<rparr>) (Ns_all example_namespace) empty_world)) =
     [Skani_dist ''--ri'' ''/d/contigs.fna'' ''--qi'' ''/d/contigs.fna''
        ''/w/unbinned-unbinned_skani_ANI.tsv'' 125 1000 80 15 15]
   \<and> files (snd (main (example_env\<lparr>on_path := [''skani'']\<rparr>) (Ns_all example_namespace) empty_world))
       ''/w/skani_processed.tsv'' =
     Some (''g1'' @ [tab] @ ''g2'' @ [tab] @ ''0.792'' @ [newline])
   \<and> fst (main (example_env\<lparr>on_path := [''mcxload'', ''mcl'']\<rparr>) (Ns_all example_namespace) empty_world) =
     Inl (RuntimeError ''Cannot find path to skani'')
   \<and> executed (snd (main (example_env\<lparr>on_path := [''mcxload'', ''mcl'']\<rparr>) (Ns_all example_namespace)
       empty_world)) = []"
  by code_simp

end
